theory Spec2Isabelle
  imports Main
begin

section \<open>Values of a raw record\<close>

text \<open>
  A raw record is what \<^verbatim>\<open>json.loads\<close> or \<^verbatim>\<open>toml.loads\<close> hands to the normalizer:
  a tree of Python values. Strings are \<^typ>\<open>string\<close> (ASCII), numbers are integers
  (a float behaves like an integer wherever the normalizer looks at a number: it is
  truthy unless zero, it is hashable, and it is neither iterable nor subscriptable),
  a \<^verbatim>\<open>dict\<close> is an association list read with \<^const>\<open>map_of\<close>.
\<close>

datatype json =
    JNull
  | JBool bool
  | JInt int
  | JStr string
  | JList "json list"
  | JObj "(string \<times> json) list"

text \<open>Every \<^verbatim>\<open>raise\<close> of the source, and of the library calls it makes, is a value.\<close>

datatype pyerror =
    KeyError string
  | TypeError
  | ValueError
  | AttributeError
  | LangDetectException
  | JSONDecodeError
  | TomlDecodeError
  | DeserializerError

text \<open>Python's truth value of an object, as \<^verbatim>\<open>not x\<close> and \<^verbatim>\<open>if x\<close> test it.\<close>

fun truthy :: "json \<Rightarrow> bool" where
  "truthy JNull = False"
| "truthy (JBool b) = b"
| "truthy (JInt i) = (i \<noteq> 0)"
| "truthy (JStr s) = (s \<noteq> [])"
| "truthy (JList xs) = (xs \<noteq> [])"
| "truthy (JObj kvs) = (kvs \<noteq> [])"

text \<open>\<^verbatim>\<open>s.startswith(k)\<close> and the substring test \<^verbatim>\<open>k in s\<close> on strings.\<close>

fun startswith :: "string \<Rightarrow> string \<Rightarrow> bool" where
  "startswith [] s = True"
| "startswith (c # cs) [] = False"
| "startswith (c # cs) (d # ds) = (c = d \<and> startswith cs ds)"

fun str_contains :: "string \<Rightarrow> string \<Rightarrow> bool" where
  "str_contains k [] = (k = [])"
| "str_contains k (c # cs) = (startswith k (c # cs) \<or> str_contains k cs)"

text \<open>
  \<^verbatim>\<open>k in last\<close> for a string key \<^verbatim>\<open>k\<close>: key membership in a dict, the substring
  test in a string, element equality in a list; \<^verbatim>\<open>None\<close>, a boolean and a number are
  not iterable and raise \<^verbatim>\<open>TypeError\<close>.
\<close>

fun py_contains :: "json \<Rightarrow> string \<Rightarrow> pyerror + bool" where
  "py_contains (JObj kvs) k = Inr (k \<in> set (map fst kvs))"
| "py_contains (JStr s) k = Inr (str_contains k s)"
| "py_contains (JList xs) k = Inr (JStr k \<in> set xs)"
| "py_contains JNull k = Inl TypeError"
| "py_contains (JBool b) k = Inl TypeError"
| "py_contains (JInt i) k = Inl TypeError"

text \<open>
  \<^verbatim>\<open>last[k]\<close> for a string key: the value in a dict (\<^verbatim>\<open>KeyError\<close> when absent);
  a string and a list take integer indices only, the other values are not
  subscriptable: \<^verbatim>\<open>TypeError\<close>.
\<close>

fun py_getitem :: "json \<Rightarrow> string \<Rightarrow> pyerror + json" where
  "py_getitem (JObj kvs) k = (case map_of kvs k of None \<Rightarrow> Inl (KeyError k) | Some v \<Rightarrow> Inr v)"
| "py_getitem (JStr s) k = Inl TypeError"
| "py_getitem (JList xs) k = Inl TypeError"
| "py_getitem JNull k = Inl TypeError"
| "py_getitem (JBool b) k = Inl TypeError"
| "py_getitem (JInt i) k = Inl TypeError"

text \<open>\<^verbatim>\<open>raw[k]\<close> and \<^verbatim>\<open>raw.get(k)\<close> on a record that is a \<^verbatim>\<open>dict\<close>.\<close>

definition dict_getitem :: "(string \<times> json) list \<Rightarrow> string \<Rightarrow> pyerror + json" where
  "dict_getitem raw k = (case map_of raw k of None \<Rightarrow> Inl (KeyError k) | Some v \<Rightarrow> Inr v)"

definition dict_get :: "(string \<times> json) list \<Rightarrow> string \<Rightarrow> json" where
  "dict_get raw k = (case map_of raw k of None \<Rightarrow> JNull | Some v \<Rightarrow> v)"

text \<open>Sequencing of statements that may raise: the first error ends the call.\<close>

definition bind :: "pyerror + 'a \<Rightarrow> ('a \<Rightarrow> pyerror + 'b) \<Rightarrow> pyerror + 'b" where
  "bind m f = (case m of Inl e \<Rightarrow> Inl e | Inr v \<Rightarrow> f v)"

section \<open>The Field Extractor\<close>

text \<open>
  \<^verbatim>\<open>OshwaNormalizer._get_key(obj, *key, default=None)\<close>:
  \<^verbatim>\<open>
    last = obj
    for k in key:
        if not last or k not in last:
            return default
        last = last[k]
    if not last:
        return default
    return last
  \<close>
  The loop is recursion on the keys; \<^verbatim>\<open>or\<close> short-circuits, so the membership
  test runs on a truthy value only.
\<close>

fun get_key :: "json \<Rightarrow> string list \<Rightarrow> json \<Rightarrow> pyerror + json" where
  "get_key last' [] default' = (if \<not> truthy last' then Inr default' else Inr last')"
| "get_key last' (k # key) default' =
     (if \<not> truthy last' then Inr default'
      else (case py_contains last' k of
              Inl e \<Rightarrow> Inl e
            | Inr found \<Rightarrow>
                if \<not> found then Inr default'
                else (case py_getitem last' k of
                        Inl e \<Rightarrow> Inl e
                      | Inr v \<Rightarrow> get_key v key default')))"

text \<open>
  The words of the specification, to compare the code with: the value reached by
  walking the tree key by key through mappings, if every key is there.
\<close>

fun walk_spec :: "json \<Rightarrow> string list \<Rightarrow> json option" where
  "walk_spec v [] = Some v"
| "walk_spec (JObj kvs) (k # key) =
     (case map_of kvs k of None \<Rightarrow> None | Some v \<Rightarrow> walk_spec v key)"
| "walk_spec v (k # key) = None"

definition get_key_spec :: "json \<Rightarrow> string list \<Rightarrow> json \<Rightarrow> json" where
  "get_key_spec obj key default' =
     (case walk_spec obj key of
        None \<Rightarrow> default'
      | Some v \<Rightarrow> if truthy v then v else default')"

text \<open>
  The values on which the walk of \<^const>\<open>get_key\<close> is defined: every value met before
  a key is looked up is falsy, a mapping, or a string or list that does not hold the key.
\<close>

fun traversable :: "json \<Rightarrow> string list \<Rightarrow> bool" where
  "traversable v [] = True"
| "traversable (JObj kvs) (k # key) =
     (case map_of kvs k of None \<Rightarrow> True | Some v \<Rightarrow> traversable v key)"
| "traversable (JStr s) (k # key) = (\<not> str_contains k s)"
| "traversable (JList xs) (k # key) = (JStr k \<notin> set xs)"
| "traversable JNull (k # key) = True"
| "traversable (JBool b) (k # key) = (\<not> b)"
| "traversable (JInt i) (k # key) = (i = 0)"

section \<open>Dates and times\<close>

text \<open>
  A \<^verbatim>\<open>datetime\<close> object. \<open>tzinfo\<close> is \<open>None\<close> for a naive value and the UTC
  offset in microseconds for an aware one (a fixed-offset \<^verbatim>\<open>timezone\<close>).
\<close>

record datetime =
  year :: nat
  month :: nat
  day :: nat
  hour :: nat
  minute :: nat
  second :: nat
  microsecond :: nat
  tzinfo :: "int option"

definition digit_value :: "char \<Rightarrow> nat option" where
  "digit_value c =
     map_of [(CHR ''0'', 0), (CHR ''1'', 1), (CHR ''2'', 2), (CHR ''3'', 3), (CHR ''4'', 4),
             (CHR ''5'', 5), (CHR ''6'', 6), (CHR ''7'', 7), (CHR ''8'', 8), (CHR ''9'', 9)] c"

fun digits_value :: "string \<Rightarrow> nat \<Rightarrow> nat option" where
  "digits_value [] acc = Some acc"
| "digits_value (c # cs) acc =
     (case digit_value c of None \<Rightarrow> None | Some d \<Rightarrow> digits_value cs (10 * acc + d))"

text \<open>A field of decimal digits; anything else is a \<^verbatim>\<open>ValueError\<close>.\<close>

definition parse_int :: "string \<Rightarrow> pyerror + nat" where
  "parse_int s =
     (if s = [] then Inl ValueError
      else (case digits_value s 0 of None \<Rightarrow> Inl ValueError | Some n \<Rightarrow> Inr n))"

definition two_digits :: "string \<Rightarrow> pyerror + nat" where
  "two_digits s = (if length s < 2 then Inl ValueError else parse_int (take 2 s))"

text \<open>
  \<^verbatim>\<open>datetime.fromisoformat\<close> of the standard library, as Python 3.7 to 3.10 define
  it (\<^verbatim>\<open>Lib/datetime.py\<close>): the format is
  \<^verbatim>\<open>YYYY-MM-DD[*HH[:MM[:SS[.fff[fff]]]][+HH:MM[:SS[.ffffff]]]]\<close>, where \<^verbatim>\<open>*\<close> is any
  single character. The date is the first ten characters.
\<close>

definition parse_isoformat_date :: "string \<Rightarrow> pyerror + (nat \<times> nat \<times> nat)" where
  "parse_isoformat_date dtstr =
     (if length dtstr \<noteq> 10 \<or> dtstr ! 4 \<noteq> CHR ''-'' \<or> dtstr ! 7 \<noteq> CHR ''-''
      then Inl ValueError
      else bind (parse_int (take 4 dtstr)) (\<lambda>y.
           bind (parse_int (take 2 (drop 5 dtstr))) (\<lambda>m.
           bind (parse_int (take 2 (drop 8 dtstr))) (\<lambda>d. Inr (y, m, d)))))"

text \<open>
  \<^verbatim>\<open>_parse_hh_mm_ss_ff\<close>: \<^verbatim>\<open>HH[:MM[:SS[.fff[fff]]]]\<close>. The loop over the three
  two-digit components is written out; the result is hour, minute, second, microsecond.
\<close>

definition parse_hh_mm_ss_ff :: "string \<Rightarrow> pyerror + (nat \<times> nat \<times> nat \<times> nat)" where
  "parse_hh_mm_ss_ff tstr =
     bind (two_digits tstr) (\<lambda>hh.
       let r1 = drop 2 tstr in
       if r1 = [] then Inr (hh, 0, 0, 0)
       else if hd r1 \<noteq> CHR '':'' then Inl ValueError
       else bind (two_digits (tl r1)) (\<lambda>mm.
         let r2 = drop 2 (tl r1) in
         if r2 = [] then Inr (hh, mm, 0, 0)
         else if hd r2 \<noteq> CHR '':'' then Inl ValueError
         else bind (two_digits (tl r2)) (\<lambda>ss.
           let r3 = drop 2 (tl r2) in
           if r3 = [] then Inr (hh, mm, ss, 0)
           else if hd r3 \<noteq> CHR ''.'' then Inl ValueError
           else let ff = tl r3 in
                if length ff \<noteq> 3 \<and> length ff \<noteq> 6 then Inl ValueError
                else bind (parse_int ff) (\<lambda>us.
                       Inr (hh, mm, ss, if length ff = 3 then us * 1000 else us)))))"

text \<open>
  \<^verbatim>\<open>_parse_isoformat_time\<close>: the time, then the offset after the first \<^verbatim>\<open>-\<close>
  (or, when there is none, the first \<^verbatim>\<open>+\<close>). An offset of zero is \<^verbatim>\<open>timezone.utc\<close>;
  \<^verbatim>\<open>timezone\<close> refuses an offset of 24 hours or more.
\<close>

definition tz_split :: "string \<Rightarrow> (string \<times> (int \<times> string) option)" where
  "tz_split tstr =
     (if CHR ''-'' \<in> set tstr
      then (takeWhile (\<lambda>c. c \<noteq> CHR ''-'') tstr,
            Some (- 1, tl (dropWhile (\<lambda>c. c \<noteq> CHR ''-'') tstr)))
      else if CHR ''+'' \<in> set tstr
      then (takeWhile (\<lambda>c. c \<noteq> CHR ''+'') tstr,
            Some (1, tl (dropWhile (\<lambda>c. c \<noteq> CHR ''+'') tstr)))
      else (tstr, None))"

definition parse_isoformat_time ::
  "string \<Rightarrow> pyerror + ((nat \<times> nat \<times> nat \<times> nat) \<times> int option)" where
  "parse_isoformat_time tstr =
     (if length tstr < 2 then Inl ValueError
      else (case tz_split tstr of
              (timestr, None) \<Rightarrow> bind (parse_hh_mm_ss_ff timestr) (\<lambda>tc. Inr (tc, None))
            | (timestr, Some (tzsign, tzstr)) \<Rightarrow>
                bind (parse_hh_mm_ss_ff timestr) (\<lambda>tc.
                  if length tzstr \<noteq> 5 \<and> length tzstr \<noteq> 8 \<and> length tzstr \<noteq> 15
                  then Inl ValueError
                  else bind (parse_hh_mm_ss_ff tzstr) (\<lambda>(h, m, s, us).
                    let td = ((int h * 3600 + int m * 60 + int s) * 1000000 + int us) in
                    if td = 0 then Inr (tc, Some 0)
                    else if 86400000000 \<le> td then Inl ValueError
                    else Inr (tc, Some (tzsign * td))))))"

definition is_leap :: "nat \<Rightarrow> bool" where
  "is_leap y = (y mod 4 = 0 \<and> (y mod 100 \<noteq> 0 \<or> y mod 400 = 0))"

definition days_in_month :: "nat \<Rightarrow> nat \<Rightarrow> nat" where
  "days_in_month y m =
     (if m = 2 then (if is_leap y then 29 else 28)
      else if m = 4 \<or> m = 6 \<or> m = 9 \<or> m = 11 then 30 else 31)"

text \<open>The range checks of the \<^verbatim>\<open>datetime\<close> constructor.\<close>

definition new_datetime ::
  "nat \<times> nat \<times> nat \<Rightarrow> (nat \<times> nat \<times> nat \<times> nat) \<times> int option \<Rightarrow> pyerror + datetime" where
  "new_datetime date time =
     (case (date, time) of ((y, m, d), ((hh, mm, ss, us), tz)) \<Rightarrow>
        if y < 1 \<or> 9999 < y \<or> m < 1 \<or> 12 < m \<or> d < 1 \<or> days_in_month y m < d
           \<or> 23 < hh \<or> 59 < mm \<or> 59 < ss \<or> 999999 < us
        then Inl ValueError
        else Inr \<lparr>year = y, month = m, day = d, hour = hh, minute = mm, second = ss,
                  microsecond = us, tzinfo = tz\<rparr>)"

definition fromisoformat_str :: "string \<Rightarrow> pyerror + datetime" where
  "fromisoformat_str date_string =
     (let dstr = take 10 date_string; tstr = drop 11 date_string in
      bind (parse_isoformat_date dstr) (\<lambda>date.
        if tstr \<noteq> [] then bind (parse_isoformat_time tstr) (\<lambda>time. new_datetime date time)
        else new_datetime date ((0, 0, 0, 0), None)))"

text \<open>The argument must be a \<^verbatim>\<open>str\<close>: \<^verbatim>\<open>TypeError\<close> otherwise.\<close>

fun fromisoformat :: "json \<Rightarrow> pyerror + datetime" where
  "fromisoformat (JStr s) = fromisoformat_str s"
| "fromisoformat v = Inl TypeError"

section \<open>Scalar fields of the Project Normalizer\<close>

text \<open>
  \<^verbatim>\<open>_normalize_created_at\<close>:
  \<^verbatim>\<open>
    certification_date = raw.get("certificationDate")
    if not certification_date:
        return datetime.fromisoformat("1970-01-01 00:00:00")
    return datetime.fromisoformat(raw["certificationDate"])
  \<close>
\<close>

definition normalize_created_at :: "(string \<times> json) list \<Rightarrow> pyerror + datetime" where
  "normalize_created_at raw =
     (let certification_date = dict_get raw ''certificationDate'' in
      if \<not> truthy certification_date then fromisoformat (JStr ''1970-01-01 00:00:00'')
      else bind (dict_getitem raw ''certificationDate'') fromisoformat)"

text \<open>
  \<^verbatim>\<open>_normalize_classification\<close>. \<^verbatim>\<open>x in unmappable_categories\<close> compares \<^verbatim>\<open>x\<close> with
  each string of the list; \<^verbatim>\<open>len\<close> is defined on strings, lists and dicts; a dict is
  indexed by hashable keys only, and only \<^verbatim>\<open>KeyError\<close> is caught.
\<close>

definition unmappable_categories :: "string list" where
  "unmappable_categories =
     [''Arts'', ''Education'', ''Environmental'', ''Manufacturing'', ''Other'', ''Science'',
      ''Tool'']"

definition mapping_primary_to_cpc :: "(string \<times> string) list" where
  "mapping_primary_to_cpc =
     [(''3D Printing'', ''B33Y''),
      (''Agriculture'', ''A01''),
      (''Electronics'', ''H''),
      (''Enclosure'', ''F16M''),
      (''Home Connection'', ''H04W''),
      (''IOT'', ''H04''),
      (''Robotics'', ''B25J9 / 00''),
      (''Sound'', ''H04R''),
      (''Space'', ''B64G''),
      (''Wearables'', ''H'')]"

fun in_str_list :: "json \<Rightarrow> string list \<Rightarrow> bool" where
  "in_str_list (JStr s) xs = (s \<in> set xs)"
| "in_str_list v xs = False"

fun py_len :: "json \<Rightarrow> pyerror + nat" where
  "py_len (JStr s) = Inr (length s)"
| "py_len (JList xs) = Inr (length xs)"
| "py_len (JObj kvs) = Inr (length kvs)"
| "py_len v = Inl TypeError"

text \<open>\<^verbatim>\<open>table[key]\<close> on a dict with string keys: the value, or the error raised.\<close>

fun str_dict_getitem :: "(string \<times> string) list \<Rightarrow> json \<Rightarrow> pyerror + string" where
  "str_dict_getitem table (JStr s) =
     (case map_of table s of None \<Rightarrow> Inl (KeyError s) | Some v \<Rightarrow> Inr v)"
| "str_dict_getitem table (JList xs) = Inl TypeError"
| "str_dict_getitem table (JObj kvs) = Inl TypeError"
| "str_dict_getitem table v = Inl (KeyError [])"

definition normalize_classification :: "(string \<times> json) list \<Rightarrow> pyerror + json" where
  "normalize_classification raw =
     (let primary_type = dict_get raw ''primaryType'';
          additional_type = dict_get raw ''additionalType'' in
      if in_str_list primary_type unmappable_categories then
        (if additional_type = JNull then Inr (JStr [])
         else bind (py_len additional_type) (\<lambda>n.
                if n = 0 then Inr (JStr []) else Inr additional_type))
      else (case str_dict_getitem mapping_primary_to_cpc primary_type of
              Inr cpc \<Rightarrow> Inr (JStr cpc)
            | Inl (KeyError k) \<Rightarrow> Inr primary_type
            | Inl e \<Rightarrow> Inl e))"

text \<open>\<^verbatim>\<open>LICENSE_MAPPING\<close> and \<^verbatim>\<open>LICENSE_MAPPING.get(raw_license)\<close>.\<close>

definition LICENSE_MAPPING :: "(string \<times> string) list" where
  "LICENSE_MAPPING =
     [(''CC-BY-4.0'', ''CC-BY-4.0''),
      (''CC0-1.0'', ''CC0-1.0''),
      (''MIT'', ''MIT''),
      (''BSD-2-Clause'', ''BSD-2-Clause''),
      (''CC-BY-SA-4.0'', ''CC-BY-SA-4.0''),
      (''CC BY-SA'', ''CC-BY-SA-4.0''),
      (''GPL-3.0'', ''GPL-3.0-only''),
      (''OHL'', ''TAPR-OHL-1.0''),
      (''CERN OHL'', ''CERN-OHL-1.2''),
      (''CERN'', ''CERN-OHL-1.2''),
      (''alternativeLicense'', ''MIT'')]"

fun str_dict_get :: "(string \<times> string) list \<Rightarrow> json \<Rightarrow> pyerror + string option" where
  "str_dict_get table (JStr s) = Inr (map_of table s)"
| "str_dict_get table (JList xs) = Inl TypeError"
| "str_dict_get table (JObj kvs) = Inl TypeError"
| "str_dict_get table v = Inr None"

text \<open>A license object of \<^verbatim>\<open>krawl.licenses\<close>, known by its canonical identifier.\<close>

datatype license = License string

text \<open>
  Modelled from the spec: \<^verbatim>\<open>krawl.licenses.get_by_id_or_name\<close> is not among the
  sources. The License Resolver is a static table from identifiers and names to
  canonical licenses (the table is a parameter here), and an absent or unmapped
  argument resolves to no license.
\<close>

definition get_by_id_or_name :: "(string \<rightharpoonup> license) \<Rightarrow> string option \<Rightarrow> license option" where
  "get_by_id_or_name licenses id_or_name =
     (case id_or_name of None \<Rightarrow> None | Some n \<Rightarrow> licenses n)"

text \<open>
  \<^verbatim>\<open>_normalize_license\<close>:
  \<^verbatim>\<open>
    raw_license = cls._get_key(raw, "hardwareLicense")
    if not raw_license:
        return None
    if raw_license == "None" or raw_license == "Other":
        return None
    return licenses.get_by_id_or_name(LICENSE_MAPPING.get(raw_license))
  \<close>
\<close>

definition normalize_license ::
  "(string \<rightharpoonup> license) \<Rightarrow> (string \<times> json) list \<Rightarrow> pyerror + license option" where
  "normalize_license licenses raw =
     bind (get_key (JObj raw) [''hardwareLicense''] JNull) (\<lambda>raw_license.
       if \<not> truthy raw_license then Inr None
       else if raw_license = JStr ''None'' \<or> raw_license = JStr ''Other'' then Inr None
       else bind (str_dict_get LICENSE_MAPPING raw_license) (\<lambda>mapped.
              Inr (get_by_id_or_name licenses mapped)))"

text \<open>
  \<^verbatim>\<open>_normalize_language\<close>, with the detector of the \<^verbatim>\<open>langdetect\<close> library as a
  parameter:
  \<^verbatim>\<open>
    if not description:
        return "en"
    try:
        lang = detect_language(description)
    except LangDetectException:
        return "en"
    if lang == "unknown":
        return "en"
    return lang
  \<close>
  Only \<^verbatim>\<open>LangDetectException\<close> is caught; any other exception of the detector leaves
  the function.
\<close>

definition normalize_language ::
  "(string \<Rightarrow> pyerror + string) \<Rightarrow> string option \<Rightarrow> pyerror + string" where
  "normalize_language detect_language description =
     (case description of
        None \<Rightarrow> Inr ''en''
      | Some text \<Rightarrow>
          if text = [] then Inr ''en''
          else (case detect_language text of
                  Inl e \<Rightarrow> if e = LangDetectException then Inr ''en'' else Inl e
                | Inr lang \<Rightarrow> if lang = ''unknown'' then Inr ''en'' else Inr lang))"

section \<open>Paths and file names\<close>

text \<open>
  A \<^verbatim>\<open>pathlib.Path\<close> as the constructor leaves it: the root (empty for a relative
  path) and the components. \<^verbatim>\<open>name\<close> is the last component, or the empty string
  when there is none.
\<close>

datatype path = Path string "string list"

fun path_name :: "path \<Rightarrow> string" where
  "path_name (Path root comps) = (if comps = [] then [] else last comps)"

text \<open>
  \<^verbatim>\<open>suffix\<close> and \<^verbatim>\<open>stem\<close> of a name: with \<^verbatim>\<open>i = name.rfind(".")\<close>, the name is cut
  at \<^verbatim>\<open>i\<close> when \<^verbatim>\<open>0 < i < len(name) - 1\<close>, and has no suffix otherwise.
\<close>

definition name_split :: "string \<Rightarrow> string \<times> string" where
  "name_split name =
     (let front = rev (tl (dropWhile (\<lambda>c. c \<noteq> CHR ''.'') (rev name)));
          back = rev (takeWhile (\<lambda>c. c \<noteq> CHR ''.'') (rev name))
      in if CHR ''.'' \<in> set name \<and> front \<noteq> [] \<and> back \<noteq> []
         then (front, CHR ''.'' # back) else (name, []))"

definition path_stem :: "path \<Rightarrow> string" where
  "path_stem p = fst (name_split (path_name p))"

definition path_suffix :: "path \<Rightarrow> string" where
  "path_suffix p = snd (name_split (path_name p))"

text \<open>
  \<^verbatim>\<open>path.with_suffix("")\<close>: the last component loses its suffix; a path with an empty
  name raises \<^verbatim>\<open>ValueError\<close>.
\<close>

fun strip_suffix :: "path \<Rightarrow> path" where
  "strip_suffix (Path root comps) =
     (if comps = [] then Path root comps
      else Path root (butlast comps @ [fst (name_split (last comps))]))"

definition with_suffix_empty :: "path \<Rightarrow> pyerror + path" where
  "with_suffix_empty p = (if path_name p = [] then Inl ValueError else Inr (strip_suffix p))"

fun str_join :: "string \<Rightarrow> string list \<Rightarrow> string" where
  "str_join sep [] = []"
| "str_join sep [x] = x"
| "str_join sep (x # y # ys) = x @ sep @ str_join sep (y # ys)"

fun path_str :: "path \<Rightarrow> string" where
  "path_str (Path root comps) =
     (if root = [] \<and> comps = [] then ''.'' else root @ str_join ''/'' comps)"

text \<open>\<^verbatim>\<open>str.upper\<close>, \<^verbatim>\<open>str.lower\<close> and \<^verbatim>\<open>str.replace\<close> of one character, on ASCII.\<close>

definition ascii_upper :: "char \<Rightarrow> char" where
  "ascii_upper c =
     (case map_of (zip ''abcdefghijklmnopqrstuvwxyz'' ''ABCDEFGHIJKLMNOPQRSTUVWXYZ'') c of
        None \<Rightarrow> c | Some u \<Rightarrow> u)"

definition ascii_lower :: "char \<Rightarrow> char" where
  "ascii_lower c =
     (case map_of (zip ''ABCDEFGHIJKLMNOPQRSTUVWXYZ'' ''abcdefghijklmnopqrstuvwxyz'') c of
        None \<Rightarrow> c | Some l \<Rightarrow> l)"

definition str_upper :: "string \<Rightarrow> string" where
  "str_upper s = map ascii_upper s"

definition str_lower :: "string \<Rightarrow> string" where
  "str_lower s = map ascii_lower s"

definition str_replace :: "char \<Rightarrow> char \<Rightarrow> string \<Rightarrow> string" where
  "str_replace old new s = map (\<lambda>c. if c = old then new else c) s"

section \<open>Files and Parts\<close>

text \<open>
  Modelled from the spec: the classes \<^verbatim>\<open>File\<close> and \<^verbatim>\<open>Part\<close> of \<^verbatim>\<open>krawl.project\<close> are
  not among the sources. They are plain records with the fields of the data model,
  every one unset (\<^verbatim>\<open>None\<close>, the empty list) in a fresh object; an object of either
  class is truthy, so \<^verbatim>\<open>not part.source\<close> tests for \<^verbatim>\<open>None\<close>.
\<close>

record file_obj =
  path :: "path option"
  name :: "string option"
  mime_type :: json
  url :: json
  perma_url :: json
  created_at :: "datetime option"
  last_changed :: "datetime option"
  last_visited :: "datetime option"
  license :: "license option"
  licensor :: json

record part =
  part_name :: "string option"
  part_license :: "license option"
  part_licensor :: json
  source :: "file_obj option"
  export :: "file_obj list"
  image :: "file_obj option"

definition Part :: part where
  "Part = \<lparr>part_name = None, part_license = None, part_licensor = JNull,
           source = None, export = [], image = None\<rparr>"

section \<open>The Part Classifier\<close>

definition EXCLUDE_FILES :: "string list" where
  "EXCLUDE_FILES =
     [''ACKNOWLEDGMENTS'', ''AUTHORS'', ''CHANGELOG'', ''CODE_OF_CONDUCT'', ''CODEOWNERS'',
      ''CONTRIBUTING'', ''CONTRIBUTORS'', ''FUNDING'', ''ISSUE_TEMPLATE'', ''LICENSE'',
      ''PULL_REQUEST_TEMPLATE'', ''README'', ''SECURITY'', ''SUPPORT'', ''USERGUIDE'',
      ''USERMANUAL'']"

text \<open>
  The first loop of \<^verbatim>\<open>_normalize_parts\<close>:
  \<^verbatim>\<open>
    filtered = []
    for file in files:
        normalized_name = file.path.stem.replace(" ", "_").replace("-", "_").upper()
        if normalized_name in EXCLUDE_FILES:
            continue
        filtered.append(file)
  \<close>
  A file whose \<^verbatim>\<open>path\<close> is \<^verbatim>\<open>None\<close> has no \<^verbatim>\<open>stem\<close>: \<^verbatim>\<open>AttributeError\<close>.
\<close>

definition exclude_name :: "path \<Rightarrow> string" where
  "exclude_name p = str_upper (str_replace CHR ''-'' CHR ''_'' (str_replace CHR '' '' CHR ''_'' (path_stem p)))"

fun filter_excluded :: "file_obj list \<Rightarrow> pyerror + file_obj list" where
  "filter_excluded [] = Inr []"
| "filter_excluded (file # files) =
     (case path file of
        None \<Rightarrow> Inl AttributeError
      | Some p \<Rightarrow>
          (case filter_excluded files of
             Inl e \<Rightarrow> Inl e
           | Inr filtered \<Rightarrow>
               if exclude_name p \<in> set EXCLUDE_FILES then Inr filtered
               else Inr (file # filtered)))"

text \<open>
  The second loop:
  \<^verbatim>\<open>
    buckets = defaultdict(list)
    for file in filtered:
        normalized_name = str(file.path.with_suffix("")).lower()
        buckets[normalized_name].append(file)
  \<close>
  The dict keeps its keys in the order of their first insertion.
\<close>

fun bucket_append ::
  "(string \<times> file_obj list) list \<Rightarrow> string \<Rightarrow> file_obj \<Rightarrow> (string \<times> file_obj list) list" where
  "bucket_append [] k f = [(k, [f])]"
| "bucket_append ((k', fl) # buckets) k f =
     (if k' = k then (k', fl @ [f]) # buckets else (k', fl) # bucket_append buckets k f)"

definition bucket_key :: "path \<Rightarrow> string" where
  "bucket_key p = str_lower (path_str (strip_suffix p))"

fun make_buckets ::
  "(string \<times> file_obj list) list \<Rightarrow> file_obj list \<Rightarrow> pyerror + (string \<times> file_obj list) list" where
  "make_buckets buckets [] = Inr buckets"
| "make_buckets buckets (file # filtered) =
     (case path file of
        None \<Rightarrow> Inl AttributeError
      | Some p \<Rightarrow>
          (case with_suffix_empty p of
             Inl e \<Rightarrow> Inl e
           | Inr q \<Rightarrow>
               make_buckets (bucket_append buckets (str_lower (path_str q)) file) filtered))"

text \<open>
  The body of the loop over the files of one bucket. The property \<^verbatim>\<open>File.extension\<close>
  and the Format Registry \<^verbatim>\<open>get_formats\<close> of \<^verbatim>\<open>krawl.file_formats\<close> are not among the
  sources: both are parameters. A registry maps an extension to the category of its
  format, the one attribute the classifier reads.
\<close>

definition classify_file ::
  "(file_obj \<Rightarrow> string) \<Rightarrow> (string \<Rightarrow> string \<rightharpoonup> string) \<Rightarrow> part \<Rightarrow> file_obj \<Rightarrow> part" where
  "classify_file extension get_formats part file =
     (let cad_formats = get_formats ''cad'';
          pcb_formats = get_formats ''pcb'';
          image_formats = get_formats ''image'';
          ext = ''.'' @ extension file
      in case cad_formats ext of
           Some category \<Rightarrow>
             if category = ''source'' then
               (if source part = None then part\<lparr>source := Some file\<rparr>
                else part\<lparr>export := export part @ [file]\<rparr>)
             else if category = ''export'' then part\<lparr>export := export part @ [file]\<rparr>
             else part
         | None \<Rightarrow>
             (case pcb_formats ext of
                Some category \<Rightarrow>
                  if category = ''source'' then
                    (if source part = None then part\<lparr>source := Some file\<rparr>
                     else part\<lparr>export := export part @ [file]\<rparr>)
                  else if category = ''export'' then part\<lparr>export := export part @ [file]\<rparr>
                  else part
              | None \<Rightarrow>
                  (case image_formats ext of
                     Some format \<Rightarrow>
                       if image part = None then part\<lparr>image := Some file\<rparr> else part
                   | None \<Rightarrow> part)))"

definition classify_files ::
  "(file_obj \<Rightarrow> string) \<Rightarrow> (string \<Rightarrow> string \<rightharpoonup> string) \<Rightarrow> file_obj list \<Rightarrow> part" where
  "classify_files extension get_formats fl = foldl (classify_file extension get_formats) Part fl"

text \<open>
  \<^verbatim>\<open>
    if not part.source and part.export:
        part.source = part.export.pop(0)
  \<close>
\<close>

definition promote_export :: "part \<Rightarrow> part" where
  "promote_export part =
     (if source part = None \<and> export part \<noteq> []
      then part\<lparr>source := Some (hd (export part)), export := tl (export part)\<rparr>
      else part)"

text \<open>
  \<^verbatim>\<open>
    if part.source:
        part.name = part.source.name
        part.license = part.source.license
        part.licensor = part.source.licensor
        parts.append(part)
  \<close>
  The result is the Part appended, if one is.
\<close>

definition emit_part :: "part \<Rightarrow> part option" where
  "emit_part part =
     (case source part of
        None \<Rightarrow> None
      | Some src \<Rightarrow>
          Some (part\<lparr>part_name := name src, part_license := license src,
                     part_licensor := licensor src\<rparr>))"

definition classify_bucket ::
  "(file_obj \<Rightarrow> string) \<Rightarrow> (string \<Rightarrow> string \<rightharpoonup> string) \<Rightarrow> file_obj list \<Rightarrow> part option" where
  "classify_bucket extension get_formats fl =
     emit_part (promote_export (classify_files extension get_formats fl))"

text \<open>\<^verbatim>\<open>_normalize_parts\<close>: the three loops in sequence, over \<^verbatim>\<open>buckets.values()\<close>.\<close>

definition normalize_parts_buckets :: "file_obj list \<Rightarrow> pyerror + (string \<times> file_obj list) list" where
  "normalize_parts_buckets files = bind (filter_excluded files) (make_buckets [])"

definition normalize_parts ::
  "(file_obj \<Rightarrow> string) \<Rightarrow> (string \<Rightarrow> string \<rightharpoonup> string) \<Rightarrow> file_obj list \<Rightarrow> pyerror + part list" where
  "normalize_parts extension get_formats files =
     bind (normalize_parts_buckets files) (\<lambda>buckets.
       Inr (List.map_filter (classify_bucket extension get_formats) (map snd buckets)))"

section \<open>The deserializers\<close>

text \<open>\<^verbatim>\<open>d[k] = v\<close> and \<^verbatim>\<open>d.update(e)\<close> on a dict.\<close>

fun dict_set :: "(string \<times> json) list \<Rightarrow> string \<Rightarrow> json \<Rightarrow> (string \<times> json) list" where
  "dict_set [] k v = [(k, v)]"
| "dict_set ((k', v') # kvs) k v =
     (if k' = k then (k, v) # kvs else (k', v') # dict_set kvs k v)"

definition dict_update :: "(string \<times> json) list \<Rightarrow> (string \<times> json) list \<Rightarrow> (string \<times> json) list" where
  "dict_update d e = foldl (\<lambda>acc (k, v). dict_set acc k v) d e"

text \<open>\<^verbatim>\<open>if enrich: deserialized.update(enrich)\<close>, with \<^verbatim>\<open>enrich\<close> a dict or \<^verbatim>\<open>None\<close>.\<close>

definition apply_enrich ::
  "(string \<times> json) list \<Rightarrow> (string \<times> json) list option \<Rightarrow> (string \<times> json) list" where
  "apply_enrich deserialized enrich =
     (case enrich of
        None \<Rightarrow> deserialized
      | Some e \<Rightarrow> if e = [] then deserialized else dict_update deserialized e)"

text \<open>
  \<^verbatim>\<open>JSONProjectDeserializer.deserialize\<close>, with \<^verbatim>\<open>json.loads\<close> and the normalizer as
  parameters:
  \<^verbatim>\<open>
    try:
        deserialized = json.loads(serialized)
    except Exception as err:
        raise DeserializerError(f"failed to deserialize JSON: {err}") from err
    if not isinstance(deserialized, Mapping):
        raise DeserializerError("invalid format")
    if enrich:
        deserialized.update(enrich)
    return normalizer.normalize(deserialized)
  \<close>
\<close>

definition JSON_deserialize ::
  "(string \<Rightarrow> pyerror + json) \<Rightarrow> ((string \<times> json) list \<Rightarrow> pyerror + 'p) \<Rightarrow>
   string \<Rightarrow> (string \<times> json) list option \<Rightarrow> pyerror + 'p" where
  "JSON_deserialize json_loads normalizer serialized enrich =
     (case json_loads serialized of
        Inl err \<Rightarrow> Inl DeserializerError
      | Inr deserialized \<Rightarrow>
          (case deserialized of
             JObj d \<Rightarrow> normalizer (apply_enrich d enrich)
           | _ \<Rightarrow> Inl DeserializerError))"

text \<open>
  \<^verbatim>\<open>TOMLProjectDeserializer.deserialize\<close>, with \<^verbatim>\<open>toml.loads\<close> and the normalizer as
  parameters (a \<^verbatim>\<open>bytes\<close> input is decoded first; the text is ASCII here):
  \<^verbatim>\<open>
    deserialized = toml.loads(serialized)
    if not isinstance(deserialized, Mapping):
        raise DeserializerError("invalid format")
    if enrich:
        deserialized.update(enrich)
    return normalizer.normalize(deserialized)
  \<close>
  No \<^verbatim>\<open>try\<close> surrounds the call of the parser.
\<close>

definition TOML_deserialize ::
  "(string \<Rightarrow> pyerror + json) \<Rightarrow> ((string \<times> json) list \<Rightarrow> pyerror + 'p) \<Rightarrow>
   string \<Rightarrow> (string \<times> json) list option \<Rightarrow> pyerror + 'p" where
  "TOML_deserialize toml_loads normalizer serialized enrich =
     (case toml_loads serialized of
        Inl err \<Rightarrow> Inl err
      | Inr deserialized \<Rightarrow>
          (case deserialized of
             JObj d \<Rightarrow> normalizer (apply_enrich d enrich)
           | _ \<Rightarrow> Inl DeserializerError))"

section \<open>The Project Normalizer\<close>

text \<open>
  \<^verbatim>\<open>urllib.parse.quote(string)\<close> with its default \<^verbatim>\<open>safe="/"\<close>: letters, digits and
  \<^verbatim>\<open>_.-~/\<close> stay, every other byte becomes \<^verbatim>\<open>%XX\<close>. An argument that is neither
  \<^verbatim>\<open>str\<close> nor \<^verbatim>\<open>bytes\<close> raises \<^verbatim>\<open>TypeError\<close>.
\<close>

definition hex_digit :: "nat \<Rightarrow> char" where
  "hex_digit n = ''0123456789ABCDEF'' ! (n mod 16)"

definition quote_char :: "char \<Rightarrow> string" where
  "quote_char c =
     (if c \<in> set ''ABCDEFGHIJKLMNOPQRSTUVWXYZabcdefghijklmnopqrstuvwxyz0123456789_.-~/''
      then [c]
      else [CHR ''%'', hex_digit (of_char c div 16), hex_digit (of_char c mod 16)])"

definition quote_str :: "string \<Rightarrow> string" where
  "quote_str s = concat (map quote_char s)"

fun quote :: "json \<Rightarrow> pyerror + string" where
  "quote (JStr s) = Inr (quote_str s)"
| "quote v = Inl TypeError"

text \<open>\<^verbatim>\<open>str.strip()\<close>: white space off both ends (the ASCII white space characters).\<close>

definition is_space :: "char \<Rightarrow> bool" where
  "is_space c = (of_char c \<in> {9, 10, 11, 12, 13, 28, 29, 30, 31, 32 :: nat})"

definition str_strip :: "string \<Rightarrow> string" where
  "str_strip s = rev (dropWhile is_space (rev (dropWhile is_space s)))"

text \<open>
  What the normalizer calls and the sources do not hold: \<^verbatim>\<open>strip_html\<close> of
  \<^verbatim>\<open>krawl.normalizer\<close>, the detector of \<^verbatim>\<open>langdetect\<close>, the table of known licenses,
  \<^verbatim>\<open>str()\<close> of a value that is not a string (inside an f-string),
  \<^verbatim>\<open>datetime.strptime(_, "%Y-%m-%dT%H:%M:%S.%f%z")\<close> and the clock. They are parameters.
\<close>

record library =
  lib_strip_html :: "json \<Rightarrow> pyerror + string"
  lib_detect_language :: "string \<Rightarrow> pyerror + string"
  lib_licenses :: "string \<rightharpoonup> license"
  lib_repr :: "json \<Rightarrow> string"
  lib_strptime :: "json \<Rightarrow> pyerror + datetime"
  lib_now :: datetime

fun py_str :: "library \<Rightarrow> json \<Rightarrow> string" where
  "py_str lib (JStr s) = s"
| "py_str lib v = lib_repr lib v"

text \<open>
  \<^verbatim>\<open>_normalize_function\<close>:
  \<^verbatim>\<open>
    raw_description = raw.get("projectDescription")
    if not raw_description:
        return ""
    description = strip_html(raw_description).strip()
    return description
  \<close>
\<close>

definition normalize_function :: "library \<Rightarrow> (string \<times> json) list \<Rightarrow> pyerror + string" where
  "normalize_function lib raw =
     (let raw_description = dict_get raw ''projectDescription'' in
      if \<not> truthy raw_description then Inr []
      else bind (lib_strip_html lib raw_description) (\<lambda>stripped. Inr (str_strip stripped)))"

text \<open>
  \<^verbatim>\<open>_normalize_repo\<close>:
  \<^verbatim>\<open>
    doc_url = raw.get('documentationUrl')
    if not doc_url:
        return f"https://certification.oshwa.org/{raw['oshwaUid']}.html"
    return doc_url
  \<close>
\<close>

definition normalize_repo :: "library \<Rightarrow> (string \<times> json) list \<Rightarrow> pyerror + json" where
  "normalize_repo lib raw =
     (let doc_url = dict_get raw ''documentationUrl'' in
      if \<not> truthy doc_url
      then bind (dict_getitem raw ''oshwaUid'') (\<lambda>uid.
             Inr (JStr (''https://certification.oshwa.org/'' @ py_str lib uid @ ''.html'')))
      else Inr doc_url)"

text \<open>
  Modelled from the spec: the class \<^verbatim>\<open>Project\<close> of \<^verbatim>\<open>krawl.project\<close> is not among the
  sources. It is a record of the fields of the data model (the provenance fields of
  \<^verbatim>\<open>project.meta\<close> carry the prefix \<open>meta\<close>); in a fresh object every field is
  unset and the structural content, the ordered list of Parts, is empty.
\<close>

record project =
  meta_source :: json
  meta_host :: json
  meta_owner :: json
  meta_repo :: json
  meta_created_at :: "datetime option"
  meta_last_visited :: json
  project_name :: json
  repo :: json
  version :: "string option"
  release :: "string option"
  project_license :: "license option"
  project_licensor :: json
  function' :: "string option"
  documentation_language :: "string option"
  technology_readiness_level :: json
  documentation_readiness_level :: json
  attestation :: json
  publication :: json
  standard_compliance :: json
  cpc_patent_class :: json
  tsdc :: json
  bom :: json
  manufacturing_instructions :: json
  outer_dimensions_mm :: json
  part :: "part list"
  software :: "json list"

definition Project :: project where
  "Project =
     \<lparr>meta_source = JNull, meta_host = JNull, meta_owner = JNull, meta_repo = JNull,
      meta_created_at = None, meta_last_visited = JNull, project_name = JNull, repo = JNull,
      version = None, release = None, project_license = None, project_licensor = JNull,
      function' = None, documentation_language = None, technology_readiness_level = JNull,
      documentation_readiness_level = JNull, attestation = JNull, publication = JNull,
      standard_compliance = JNull, cpc_patent_class = JNull, tsdc = JNull, bom = JNull,
      manufacturing_instructions = JNull, outer_dimensions_mm = JNull, part = [],
      software = []\<rparr>"

text \<open>
  \<^verbatim>\<open>OshwaNormalizer.normalize\<close>, statement by statement. The assignments of
  \<^verbatim>\<open>None\<close> leave the fresh record as it is; the assignment of \<^verbatim>\<open>project.part\<close> is
  commented out in the source, and \<^verbatim>\<open>_get_files\<close> and \<^verbatim>\<open>_normalize_parts\<close> are not
  called. (The argument \<^verbatim>\<open>project.id\<close> of the log call reads a property that is not
  among the sources; it is taken not to raise.)
\<close>

definition normalize' :: "library \<Rightarrow> (string \<times> json) list \<Rightarrow> pyerror + project" where
  "normalize' lib raw =
     bind (dict_getitem raw ''fetcher'') (\<lambda>source'.
     bind (dict_getitem raw ''fetcher'') (\<lambda>host.
     bind (dict_getitem raw ''responsibleParty'') (\<lambda>owner.
     bind (normalize_repo lib raw) (\<lambda>meta_repo'.
     bind (normalize_created_at raw) (\<lambda>created.
     bind (dict_getitem raw ''lastVisited'') (\<lambda>visited.
     bind (dict_getitem raw ''projectName'') (\<lambda>name'.
     bind (normalize_repo lib raw) (\<lambda>repo'.
     bind (get_key (JObj raw) [''projectVersion''] (JStr ''0.1.0'')) (\<lambda>raw_version.
     bind (quote raw_version) (\<lambda>version'.
     bind (normalize_license (lib_licenses lib) raw) (\<lambda>license'.
     bind (dict_getitem raw ''responsibleParty'') (\<lambda>licensor'.
     bind (normalize_function lib raw) (\<lambda>description.
     bind (normalize_language (lib_detect_language lib) (Some description)) (\<lambda>language.
     bind (normalize_classification raw) (\<lambda>classification.
       Inr (Project
         \<lparr>meta_source := source', meta_host := host, meta_owner := owner,
          meta_repo := meta_repo', meta_created_at := Some created,
          meta_last_visited := visited, project_name := name', repo := repo',
          version := Some version', release := Some [], project_license := license',
          project_licensor := licensor', function' := Some description,
          documentation_language := Some language,
          cpc_patent_class := classification, software := []\<rparr>))))))))))))))))"

section \<open>The File Normalizer\<close>

text \<open>
  \<^verbatim>\<open>Path(s)\<close> of a string: the components between slashes, without the empty ones and
  the single dots; the root is \<^verbatim>\<open>/\<close> for an absolute path (\<^verbatim>\<open>//\<close> when the string
  starts with exactly two slashes).
\<close>

fun split_slash :: "string \<Rightarrow> string \<Rightarrow> string list" where
  "split_slash cur [] = [rev cur]"
| "split_slash cur (c # cs) =
     (if c = CHR ''/'' then rev cur # split_slash [] cs else split_slash (c # cur) cs)"

definition path_root :: "string \<Rightarrow> string" where
  "path_root s =
     (if startswith ''///'' s then ''/''
      else if startswith ''//'' s then ''//''
      else if startswith ''/'' s then ''/'' else [])"

definition path_of_string :: "string \<Rightarrow> path" where
  "path_of_string s =
     Path (path_root s) (filter (\<lambda>comp. comp \<noteq> [] \<and> comp \<noteq> ''.'') (split_slash [] s))"

fun path_of :: "json \<Rightarrow> pyerror + path" where
  "path_of (JStr s) = Inr (path_of_string s)"
| "path_of v = Inl TypeError"

text \<open>
  \<^verbatim>\<open>_parse_file(file_raw)\<close>. The caller has stored the project's license under
  \<^verbatim>\<open>file_raw["license"]\<close>; it is passed beside the record here.
  \<^verbatim>\<open>
    file = File()
    file.path = Path(file_raw["filename"]) if "filename" in file_raw else None
    file.name = file.path.stem if file.path else None
    file.mime_type = file_raw.get("mimeType", None)
    file.url = file_raw.get("url", None)
    file.perma_url = file_raw.get("permalink", None)
    file.created_at = datetime.strptime(file_raw["dateCreated"], "%Y-%m-%dT%H:%M:%S.%f%z")
    file.last_changed = datetime.strptime(file_raw["lastUpdated"], "%Y-%m-%dT%H:%M:%S.%f%z")
    file.last_visited = datetime.now(timezone.utc)
    file.license = file_raw["license"]
    file.licensor = cls._get_key(file_raw, "creator", "profile", "fullName")
  \<close>
\<close>

definition parse_file ::
  "library \<Rightarrow> license option \<Rightarrow> (string \<times> json) list \<Rightarrow> pyerror + file_obj" where
  "parse_file lib license' file_raw =
     bind (case map_of file_raw ''filename'' of
             None \<Rightarrow> Inr None
           | Some filename \<Rightarrow> bind (path_of filename) (\<lambda>p. Inr (Some p))) (\<lambda>path'.
     bind (dict_getitem file_raw ''dateCreated'') (\<lambda>date_created.
     bind (lib_strptime lib date_created) (\<lambda>created.
     bind (dict_getitem file_raw ''lastUpdated'') (\<lambda>last_updated.
     bind (lib_strptime lib last_updated) (\<lambda>changed.
     bind (get_key (JObj file_raw) [''creator'', ''profile'', ''fullName''] JNull) (\<lambda>licensor'.
       Inr \<lparr>path = path', name = map_option path_stem path',
            mime_type = dict_get file_raw ''mimeType'', url = dict_get file_raw ''url'',
            perma_url = dict_get file_raw ''permalink'', created_at = Some created,
            last_changed = Some changed, last_visited = Some (lib_now lib),
            license = license', licensor = licensor'\<rparr>))))))"

text \<open>
  The body and the loop of \<^verbatim>\<open>_get_files\<close>:
  \<^verbatim>\<open>
    for meta in raw_files:
        file_raw = meta.get("file")
        if not file_raw:
            continue
        dir_name = meta["dirname"]
        if dir_name:
            file_raw["path"] = f"{dir_name}/{file_raw['filename']}"
        file_raw["license"] = license
        file = cls._parse_file(file_raw)
        if file:
            files.append(file)
  \<close>
  An entry that is not a dict has no \<^verbatim>\<open>get\<close> (\<^verbatim>\<open>AttributeError\<close>); a truthy
  \<^verbatim>\<open>file_raw\<close> that is not a dict takes no string key (\<^verbatim>\<open>TypeError\<close>). The key
  \<^verbatim>\<open>"path"\<close> that is stored is not read again.
\<close>

fun get_file :: "library \<Rightarrow> license option \<Rightarrow> json \<Rightarrow> pyerror + file_obj option" where
  "get_file lib license' (JObj meta) =
     (let file_raw = dict_get meta ''file'' in
      if \<not> truthy file_raw then Inr None
      else bind (dict_getitem meta ''dirname'') (\<lambda>dir_name.
             case file_raw of
               JObj fr \<Rightarrow>
                 bind (if truthy dir_name then dict_getitem fr ''filename'' else Inr JNull)
                   (\<lambda>filename. bind (parse_file lib license' fr) (\<lambda>file. Inr (Some file)))
             | _ \<Rightarrow> Inl TypeError))"
| "get_file lib license' v = Inl AttributeError"

fun get_files_loop :: "library \<Rightarrow> license option \<Rightarrow> json list \<Rightarrow> pyerror + file_obj list" where
  "get_files_loop lib license' [] = Inr []"
| "get_files_loop lib license' (meta # raw_files) =
     (case get_file lib license' meta of
        Inl e \<Rightarrow> Inl e
      | Inr found \<Rightarrow>
          (case get_files_loop lib license' raw_files of
             Inl e \<Rightarrow> Inl e
           | Inr files \<Rightarrow> Inr (case found of None \<Rightarrow> files | Some file \<Rightarrow> file # files)))"

text \<open>
  \<^verbatim>\<open>_get_files\<close>:
  \<^verbatim>\<open>
    raw_files = cls._get_key(raw, "contribution", "files", default=[])
    files = []
    license = cls._normalize_license(raw)
    for meta in raw_files: ...
    return files
  \<close>
  Iterating a non-empty dict or string yields strings, which have no \<^verbatim>\<open>get\<close>; a
  number is not iterable.
\<close>

definition get_files :: "library \<Rightarrow> (string \<times> json) list \<Rightarrow> pyerror + file_obj list" where
  "get_files lib raw =
     bind (get_key (JObj raw) [''contribution'', ''files''] (JList [])) (\<lambda>raw_files.
     bind (normalize_license (lib_licenses lib) raw) (\<lambda>license'.
       case raw_files of
         JList metas \<Rightarrow> get_files_loop lib license' metas
       | JObj kvs \<Rightarrow> if kvs = [] then Inr [] else Inl AttributeError
       | JStr s \<Rightarrow> if s = [] then Inr [] else Inl AttributeError
       | _ \<Rightarrow> Inl TypeError))"

section \<open>Notions used to state the properties of the Part Classifier\<close>

text \<open>
  The registry category of a file as the classifier reads it: the CAD registry is
  consulted first, the PCB registry when the extension is not a CAD format.
\<close>

definition file_category ::
  "(file_obj \<Rightarrow> string) \<Rightarrow> (string \<Rightarrow> string \<rightharpoonup> string) \<Rightarrow> file_obj \<Rightarrow> string option" where
  "file_category extension get_formats f =
     (case get_formats ''cad'' (''.'' @ extension f) of
        Some category \<Rightarrow> Some category
      | None \<Rightarrow> get_formats ''pcb'' (''.'' @ extension f))"

definition is_source_file ::
  "(file_obj \<Rightarrow> string) \<Rightarrow> (string \<Rightarrow> string \<rightharpoonup> string) \<Rightarrow> file_obj \<Rightarrow> bool" where
  "is_source_file extension get_formats f =
     (file_category extension get_formats f = Some ''source'')"

definition is_export_file ::
  "(file_obj \<Rightarrow> string) \<Rightarrow> (string \<Rightarrow> string \<rightharpoonup> string) \<Rightarrow> file_obj \<Rightarrow> bool" where
  "is_export_file extension get_formats f =
     (file_category extension get_formats f = Some ''export'')"

definition is_design_file ::
  "(file_obj \<Rightarrow> string) \<Rightarrow> (string \<Rightarrow> string \<rightharpoonup> string) \<Rightarrow> file_obj \<Rightarrow> bool" where
  "is_design_file extension get_formats f =
     (is_source_file extension get_formats f \<or> is_export_file extension get_formats f)"

definition is_image_file ::
  "(file_obj \<Rightarrow> string) \<Rightarrow> (string \<Rightarrow> string \<rightharpoonup> string) \<Rightarrow> file_obj \<Rightarrow> bool" where
  "is_image_file extension get_formats f =
     (file_category extension get_formats f = None
      \<and> get_formats ''image'' (''.'' @ extension f) \<noteq> None)"

text \<open>A list without its first element that satisfies a predicate.\<close>

fun drop_first :: "('a \<Rightarrow> bool) \<Rightarrow> 'a list \<Rightarrow> 'a list" where
  "drop_first P [] = []"
| "drop_first P (x # xs) = (if P x then xs else x # drop_first P xs)"

text \<open>Whether the first loop drops a file, and the key of the bucket a file goes to.\<close>

definition file_excluded :: "file_obj \<Rightarrow> bool" where
  "file_excluded f =
     (case path f of None \<Rightarrow> False | Some p \<Rightarrow> exclude_name p \<in> set EXCLUDE_FILES)"

definition file_bucket_key :: "file_obj \<Rightarrow> string" where
  "file_bucket_key f = (case path f of None \<Rightarrow> [] | Some p \<Rightarrow> bucket_key p)"

definition has_named_path :: "file_obj \<Rightarrow> bool" where
  "has_named_path f = (case path f of None \<Rightarrow> False | Some p \<Rightarrow> path_name p \<noteq> [])"

section \<open>Concrete objects for the instances\<close>

text \<open>
  A file record with a relative path of the given components and every other field
  unset; an extension property that is the lower-cased suffix without its dot; and a
  small Format Registry.
\<close>

definition example_file :: "string list \<Rightarrow> file_obj" where
  "example_file comps =
     \<lparr>path = Some (Path [] comps), name = Some (path_stem (Path [] comps)),
      mime_type = JNull, url = JNull, perma_url = JNull,
      created_at = None, last_changed = None, last_visited = None,
      license = None, licensor = JNull\<rparr>"

definition example_extension :: "file_obj \<Rightarrow> string" where
  "example_extension f =
     (case path f of None \<Rightarrow> [] | Some p \<Rightarrow> str_lower (drop 1 (path_suffix p)))"

definition example_formats :: "string \<Rightarrow> string \<rightharpoonup> string" where
  "example_formats kind =
     (if kind = ''cad'' then map_of [(''.step'', ''source''), (''.stl'', ''export'')]
      else if kind = ''pcb'' then map_of [(''.kicad_pcb'', ''source''), (''.gbr'', ''export'')]
      else if kind = ''image'' then map_of [(''.png'', ''image'')]
      else Map.empty)"

definition example_library :: library where
  "example_library =
     \<lparr>lib_strip_html = (\<lambda>v. case v of JStr s \<Rightarrow> Inr s | _ \<Rightarrow> Inl TypeError),
      lib_detect_language =
        (\<lambda>d. if d = ''Ein kleines Display'' then Inr ''de'' else Inl LangDetectException),
      lib_licenses =
        map_of [(''CERN-OHL-1.2'', License ''CERN-OHL-1.2''), (''MIT'', License ''MIT'')],
      lib_repr = (\<lambda>v. ''?''),
      lib_strptime = fromisoformat,
      lib_now = \<lparr>year = 2022, month = 1, day = 1, hour = 0, minute = 0, second = 0,
                 microsecond = 0, tzinfo = Some 0\<rparr>\<rparr>"

text \<open>A record with the provenance and identity fields only, and one with a file list.\<close>

definition example_minimal_raw :: "(string \<times> json) list" where
  "example_minimal_raw =
     [(''fetcher'', JStr ''oshwa.org''),
      (''lastVisited'', JStr ''2022-01-01T00:00:00+00:00''),
      (''oshwaUid'', JStr ''SE000004''),
      (''responsibleParty'', JStr ''arturo182''),
      (''projectName'', JStr ''OLED PMOD'')]"

definition example_raw_with_files :: "(string \<times> json) list" where
  "example_raw_with_files =
     example_minimal_raw @
     [(''hardwareLicense'', JStr ''CERN''),
      (''contribution'',
       JObj [(''files'',
              JList [JObj [(''dirname'', JStr []),
                           (''file'',
                            JObj [(''filename'', JStr ''A.step''),
                                  (''dateCreated'', JStr ''2021-03-04T10:20:30.000000+00:00''),
                                  (''lastUpdated'', JStr ''2021-03-04T10:20:30.000000+00:00'')])]])])]"

section \<open>Notions used to state the properties of the Project Normalizer\<close>

fun is_str :: "json \<Rightarrow> bool" where
  "is_str (JStr s) = True"
| "is_str v = False"

fun is_list :: "json \<Rightarrow> bool" where
  "is_list (JList xs) = True"
| "is_list v = False"

fun returns :: "pyerror + 'a \<Rightarrow> bool" where
  "returns (Inr v) = True"
| "returns (Inl e) = False"

text \<open>The fields the normalizer reads by subscript: a record must have them.\<close>

definition required_fields_present :: "(string \<times> json) list \<Rightarrow> bool" where
  "required_fields_present raw =
     (map_of raw ''fetcher'' \<noteq> None \<and> map_of raw ''responsibleParty'' \<noteq> None
      \<and> map_of raw ''lastVisited'' \<noteq> None \<and> map_of raw ''projectName'' \<noteq> None
      \<and> (truthy (dict_get raw ''documentationUrl'') \<or> map_of raw ''oshwaUid'' \<noteq> None))"

text \<open>
  The optional fields, each absent, falsy, or of the type its derivation works on: a
  string version and license label, a certification date that
  \<^verbatim>\<open>datetime.fromisoformat\<close> parses, a description that \<^verbatim>\<open>strip_html\<close> accepts, a string
  primary type and a list of additional types.
\<close>

definition optional_fields_typed :: "library \<Rightarrow> (string \<times> json) list \<Rightarrow> bool" where
  "optional_fields_typed lib raw =
     ((\<not> truthy (dict_get raw ''projectVersion'') \<or> is_str (dict_get raw ''projectVersion''))
      \<and> (\<not> truthy (dict_get raw ''certificationDate'')
           \<or> returns (fromisoformat (dict_get raw ''certificationDate'')))
      \<and> (\<not> truthy (dict_get raw ''hardwareLicense'') \<or> is_str (dict_get raw ''hardwareLicense''))
      \<and> (\<not> truthy (dict_get raw ''projectDescription'')
           \<or> returns (lib_strip_html lib (dict_get raw ''projectDescription'')))
      \<and> (dict_get raw ''primaryType'' = JNull \<or> is_str (dict_get raw ''primaryType''))
      \<and> (dict_get raw ''additionalType'' = JNull \<or> is_list (dict_get raw ''additionalType'')))"

definition optional_fields :: "string list" where
  "optional_fields =
     [''documentationUrl'', ''certificationDate'', ''projectVersion'', ''hardwareLicense'',
      ''projectDescription'', ''primaryType'', ''additionalType'']"

text \<open>The detector raises nothing but its detection exception.\<close>

definition detector_fails_softly :: "library \<Rightarrow> bool" where
  "detector_fails_softly lib =
     (\<forall>d e. lib_detect_language lib d = Inl e \<longrightarrow> e = LangDetectException)"

section \<open>Properties of the Field Extractor\<close>

lemma map_of_in_keys: "(k \<in> fst ` set kvs) = (map_of kvs k \<noteq> None)"
  by (simp add: map_of_eq_None_iff)

lemma str_contains_empty: "str_contains k [] = (k = [])"
  by simp

text \<open>
  C5 (as amended). For every tree, every key sequence and every default: when each
  value met along the path is falsy, a mapping, or a string or list that does not
  contain the next key, the Field Extractor returns without raising; the result is
  the value reached by walking the keys when that value exists and is truthy, and the
  default when a key is missing or a value on the path, or the final value, is falsy
  or cannot be walked.
\<close>

theorem get_key_returns_value_or_default:
  "traversable obj key \<Longrightarrow> get_key obj key default' = Inr (get_key_spec obj key default')"
proof (induction obj key rule: traversable.induct)
  case (1 v)
  then show ?case by (simp add: get_key_spec_def)
next
  case (2 kvs k key)
  show ?case
  proof (cases "map_of kvs k")
    case None
    then have "k \<notin> fst ` set kvs"
      by (simp add: map_of_in_keys)
    with None show ?thesis
      by (simp add: get_key_spec_def)
  next
    case (Some v)
    then have ne: "kvs \<noteq> []" by auto
    from Some 2 have "get_key v key default' = Inr (get_key_spec v key default')"
      by simp
    with Some ne show ?thesis
      by (simp add: get_key_spec_def map_of_in_keys)
  qed
next
  case (3 s k key)
  then show ?case by (simp add: get_key_spec_def)
next
  case (4 xs k key)
  then show ?case by (simp add: get_key_spec_def)
next
  case (5 k key)
  then show ?case by (simp add: get_key_spec_def)
next
  case (6 b k key)
  then show ?case by (simp add: get_key_spec_def)
next
  case (7 i k key)
  then show ?case by (simp add: get_key_spec_def)
qed

theorem get_key_returns_value_or_default_witness:
  "traversable (JObj [(''creator'', JObj [(''profile'', JObj [(''fullName'', JStr ''Ada'')])])])
     [''creator'', ''profile'', ''fullName'']
   \<and> get_key (JObj [(''creator'', JObj [(''profile'', JObj [(''fullName'', JStr ''Ada'')])])])
       [''creator'', ''profile'', ''fullName''] JNull = Inr (JStr ''Ada'')
   \<and> traversable (JObj [(''creator'', JStr ''x'')]) [''creator'', ''profile'', ''fullName'']
   \<and> get_key (JObj [(''creator'', JStr ''x'')]) [''creator'', ''profile'', ''fullName''] JNull
       = Inr JNull"
  using get_key_returns_value_or_default
          [of "JObj [(''creator'', JObj [(''profile'', JObj [(''fullName'', JStr ''Ada'')])])]"
              "[''creator'', ''profile'', ''fullName'']" JNull]
        get_key_returns_value_or_default
          [of "JObj [(''creator'', JStr ''x'')]" "[''creator'', ''profile'', ''fullName'']" JNull]
  by (simp add: get_key_spec_def)

text \<open>
  The claim as written fails where an intermediate value is truthy and not a mapping:
  on \<^verbatim>\<open>{"a": 1}\<close> with keys \<^verbatim>\<open>("a", "b")\<close> the test \<^verbatim>\<open>"b" not in 1\<close> raises
  \<^verbatim>\<open>TypeError\<close>, and on \<^verbatim>\<open>{"creator": "profile-x"}\<close> with keys
  \<^verbatim>\<open>("creator", "profile")\<close> the key is a substring, so \<^verbatim>\<open>"profile-x"["profile"]\<close>
  raises \<^verbatim>\<open>TypeError\<close>.
\<close>

theorem get_key_not_traversable_counterexample:
  "get_key (JObj [(''a'', JInt 1)]) [''a'', ''b''] JNull = Inl TypeError
   \<and> get_key (JObj [(''creator'', JStr ''profile-x'')]) [''creator'', ''profile''] JNull
       = Inl TypeError"
  by simp

section \<open>Properties of the scalar fields\<close>

lemma get_key_one:
  "get_key (JObj raw) [k] d = Inr (if truthy (dict_get raw k) then dict_get raw k else d)"
proof (cases "map_of raw k")
  case None
  then have "k \<notin> fst ` set raw" by (simp add: map_of_in_keys)
  with None show ?thesis by (simp add: dict_get_def)
next
  case (Some v)
  then have "raw \<noteq> []" by auto
  with Some show ?thesis by (simp add: dict_get_def map_of_in_keys)
qed

lemma dict_getitem_truthy:
  "truthy (dict_get raw k) \<Longrightarrow> dict_getitem raw k = Inr (dict_get raw k)"
  by (cases "map_of raw k") (simp_all add: dict_get_def dict_getitem_def)

lemmas fromisoformat_defs =
  fromisoformat_str_def parse_isoformat_date_def parse_isoformat_time_def bind_def
  parse_int_def digit_value_def tz_split_def parse_hh_mm_ss_ff_def two_digits_def
  new_datetime_def days_in_month_def

lemma fromisoformat_epoch:
  "fromisoformat (JStr ''1970-01-01 00:00:00'') =
     Inr \<lparr>year = 1970, month = 1, day = 1, hour = 0, minute = 0, second = 0,
          microsecond = 0, tzinfo = None\<rparr>"
  by (simp add: fromisoformat_defs)

text \<open>
  C6 (as amended). For every raw record: if the \<^verbatim>\<open>certificationDate\<close> field is present
  and truthy, \<^verbatim>\<open>created_at\<close> is what \<^verbatim>\<open>datetime.fromisoformat\<close> makes of it (its parse,
  or the error it raises); otherwise \<^verbatim>\<open>created_at\<close> is the naive datetime
  1970-01-01 00:00:00, which carries no time zone. A returned \<^verbatim>\<open>created_at\<close> is a
  datetime, never null.
\<close>

theorem normalize_created_at_parse_or_naive_epoch:
  "(truthy (dict_get raw ''certificationDate'') \<longrightarrow>
      normalize_created_at raw = fromisoformat (dict_get raw ''certificationDate''))
   \<and> (\<not> truthy (dict_get raw ''certificationDate'') \<longrightarrow>
      normalize_created_at raw =
        Inr \<lparr>year = 1970, month = 1, day = 1, hour = 0, minute = 0, second = 0,
             microsecond = 0, tzinfo = None\<rparr>)"
  by (simp add: normalize_created_at_def Let_def dict_getitem_truthy bind_def fromisoformat_epoch
      del: fromisoformat.simps)

theorem normalize_created_at_parse_or_naive_epoch_witness:
  "normalize_created_at [(''certificationDate'', JStr ''2020-05-04T00:00-04:00'')] =
     Inr \<lparr>year = 2020, month = 5, day = 4, hour = 0, minute = 0, second = 0,
          microsecond = 0, tzinfo = Some (- 14400000000)\<rparr>
   \<and> normalize_created_at [(''certificationDate'', JStr [])] =
     Inr \<lparr>year = 1970, month = 1, day = 1, hour = 0, minute = 0, second = 0,
          microsecond = 0, tzinfo = None\<rparr>"
  using normalize_created_at_parse_or_naive_epoch
          [of "[(''certificationDate'', JStr ''2020-05-04T00:00-04:00'')]"]
        normalize_created_at_parse_or_naive_epoch [of "[(''certificationDate'', JStr [])]"]
  by (simp add: dict_get_def fromisoformat_defs)

text \<open>
  The claim as written has the sentinel equal to the instant 1970-01-01T00:00:00Z. The
  code parses \<^verbatim>\<open>"1970-01-01 00:00:00"\<close>, a string with no offset, so the value is naive:
  it is not the aware datetime whose offset is zero (the two compare unequal in Python).
\<close>

theorem normalize_created_at_utc_epoch_counterexample:
  "normalize_created_at [] \<noteq>
     Inr \<lparr>year = 1970, month = 1, day = 1, hour = 0, minute = 0, second = 0,
          microsecond = 0, tzinfo = Some 0\<rparr>"
  by (simp add: normalize_created_at_def dict_get_def fromisoformat_epoch
      del: fromisoformat.simps)

text \<open>
  C7. For every raw record whose \<^verbatim>\<open>hardwareLicense\<close> label is absent, empty (falsy),
  \<^verbatim>\<open>"None"\<close>, \<^verbatim>\<open>"Other"\<close>, or a string that is not a key of \<^verbatim>\<open>LICENSE_MAPPING\<close>,
  \<^verbatim>\<open>_normalize_license\<close> returns null: no error, no default license and not the raw
  string.
\<close>

theorem normalize_license_unmapped_is_null:
  "map_of raw ''hardwareLicense'' = None
   \<or> \<not> truthy (dict_get raw ''hardwareLicense'')
   \<or> dict_get raw ''hardwareLicense'' = JStr ''None''
   \<or> dict_get raw ''hardwareLicense'' = JStr ''Other''
   \<or> (\<exists>label. dict_get raw ''hardwareLicense'' = JStr label
                \<and> label \<notin> fst ` set LICENSE_MAPPING)
   \<Longrightarrow> normalize_license licenses raw = Inr None"
proof -
  assume h: "map_of raw ''hardwareLicense'' = None
   \<or> \<not> truthy (dict_get raw ''hardwareLicense'')
   \<or> dict_get raw ''hardwareLicense'' = JStr ''None''
   \<or> dict_get raw ''hardwareLicense'' = JStr ''Other''
   \<or> (\<exists>label. dict_get raw ''hardwareLicense'' = JStr label
                \<and> label \<notin> fst ` set LICENSE_MAPPING)"
  have absent:
    "map_of raw ''hardwareLicense'' = None \<Longrightarrow> \<not> truthy (dict_get raw ''hardwareLicense'')"
    by (simp add: dict_get_def)
  have unmapped:
    "\<And>label. label \<notin> fst ` set LICENSE_MAPPING \<Longrightarrow> map_of LICENSE_MAPPING label = None"
    by (simp add: map_of_eq_None_iff)
  from h absent unmapped show ?thesis
    by (auto simp add: normalize_license_def get_key_one bind_def get_by_id_or_name_def
        simp del: get_key.simps)
qed

theorem normalize_license_unmapped_is_null_witness:
  "map_of [(''projectName'', JStr ''x'')] ''hardwareLicense'' = None
   \<and> normalize_license (map_of [(''MIT'', License ''MIT'')]) [(''projectName'', JStr ''x'')]
       = Inr None
   \<and> dict_get [(''hardwareLicense'', JStr ''Other'')] ''hardwareLicense'' = JStr ''Other''
   \<and> normalize_license (map_of [(''MIT'', License ''MIT'')]) [(''hardwareLicense'', JStr ''Other'')]
       = Inr None
   \<and> dict_get [(''hardwareLicense'', JStr ''Apache-2.0'')] ''hardwareLicense'' = JStr ''Apache-2.0''
   \<and> ''Apache-2.0'' \<notin> fst ` set LICENSE_MAPPING
   \<and> normalize_license (map_of [(''MIT'', License ''MIT'')])
        [(''hardwareLicense'', JStr ''Apache-2.0'')] = Inr None"
proof -
  have a: "map_of [(''projectName'', JStr ''x'')] ''hardwareLicense'' = None"
    by simp
  have b: "dict_get [(''hardwareLicense'', JStr ''Other'')] ''hardwareLicense'' = JStr ''Other''"
    by (simp add: dict_get_def)
  have c: "dict_get [(''hardwareLicense'', JStr ''Apache-2.0'')] ''hardwareLicense''
             = JStr ''Apache-2.0''"
    by (simp add: dict_get_def)
  have d: "''Apache-2.0'' \<notin> fst ` set LICENSE_MAPPING"
    by (simp add: LICENSE_MAPPING_def)
  from a have a': "normalize_license (map_of [(''MIT'', License ''MIT'')])
                     [(''projectName'', JStr ''x'')] = Inr None"
    by (intro normalize_license_unmapped_is_null) simp
  from b have b': "normalize_license (map_of [(''MIT'', License ''MIT'')])
                     [(''hardwareLicense'', JStr ''Other'')] = Inr None"
    by (intro normalize_license_unmapped_is_null) simp
  from c d have c': "normalize_license (map_of [(''MIT'', License ''MIT'')])
                       [(''hardwareLicense'', JStr ''Apache-2.0'')] = Inr None"
    by (intro normalize_license_unmapped_is_null) simp
  from a b c d a' b' c' show ?thesis by simp
qed

text \<open>
  C8. For every \<^verbatim>\<open>primaryType\<close> and \<^verbatim>\<open>additionalType\<close>: the unmappable set is
  Arts, Education, Environmental, Manufacturing, Other, Science, Tool; when
  \<^verbatim>\<open>primaryType\<close> is in it the result is \<^verbatim>\<open>additionalType\<close> verbatim, or the empty
  string when \<^verbatim>\<open>additionalType\<close> is absent or empty; otherwise a \<^verbatim>\<open>primaryType\<close> that is
  a key of the table gives the mapped code (Electronics gives H), and any other
  \<^verbatim>\<open>primaryType\<close>, an absent one too, is returned unchanged.
\<close>

theorem normalize_classification_three_tiers:
  "set unmappable_categories =
     {''Arts'', ''Education'', ''Environmental'', ''Manufacturing'', ''Other'', ''Science'', ''Tool''}
   \<and> map_of mapping_primary_to_cpc ''Electronics'' = Some ''H''
   \<and> (\<forall>p. dict_get raw ''primaryType'' = JStr p \<and> p \<in> set unmappable_categories \<longrightarrow>
          (dict_get raw ''additionalType'' = JNull \<or> dict_get raw ''additionalType'' = JList []
             \<longrightarrow> normalize_classification raw = Inr (JStr []))
        \<and> (\<forall>x xs. dict_get raw ''additionalType'' = JList (x # xs)
             \<longrightarrow> normalize_classification raw = Inr (JList (x # xs))))
   \<and> (\<forall>p cpc. dict_get raw ''primaryType'' = JStr p \<and> p \<notin> set unmappable_categories
                \<and> map_of mapping_primary_to_cpc p = Some cpc
          \<longrightarrow> normalize_classification raw = Inr (JStr cpc))
   \<and> (\<forall>p. dict_get raw ''primaryType'' = JStr p \<and> p \<notin> set unmappable_categories
              \<and> map_of mapping_primary_to_cpc p = None
          \<longrightarrow> normalize_classification raw = Inr (JStr p))
   \<and> (dict_get raw ''primaryType'' = JNull \<longrightarrow> normalize_classification raw = Inr JNull)"
proof -
  have a: "set unmappable_categories =
     {''Arts'', ''Education'', ''Environmental'', ''Manufacturing'', ''Other'', ''Science'', ''Tool''}"
    by (simp add: unmappable_categories_def)
  have b: "map_of mapping_primary_to_cpc ''Electronics'' = Some ''H''"
    by (simp add: mapping_primary_to_cpc_def)
  have c: "\<forall>p. dict_get raw ''primaryType'' = JStr p \<and> p \<in> set unmappable_categories \<longrightarrow>
          (dict_get raw ''additionalType'' = JNull \<or> dict_get raw ''additionalType'' = JList []
             \<longrightarrow> normalize_classification raw = Inr (JStr []))
        \<and> (\<forall>x xs. dict_get raw ''additionalType'' = JList (x # xs)
             \<longrightarrow> normalize_classification raw = Inr (JList (x # xs)))"
    by (auto simp add: normalize_classification_def Let_def bind_def)
  have d: "\<forall>p cpc. dict_get raw ''primaryType'' = JStr p \<and> p \<notin> set unmappable_categories
                \<and> map_of mapping_primary_to_cpc p = Some cpc
          \<longrightarrow> normalize_classification raw = Inr (JStr cpc)"
    by (simp add: normalize_classification_def Let_def)
  have e: "\<forall>p. dict_get raw ''primaryType'' = JStr p \<and> p \<notin> set unmappable_categories
              \<and> map_of mapping_primary_to_cpc p = None
          \<longrightarrow> normalize_classification raw = Inr (JStr p)"
    by (simp add: normalize_classification_def Let_def)
  have f: "dict_get raw ''primaryType'' = JNull \<longrightarrow> normalize_classification raw = Inr JNull"
    by (simp add: normalize_classification_def Let_def)
  from a b c d e f show ?thesis by blast
qed

theorem normalize_classification_three_tiers_witness:
  "normalize_classification [(''primaryType'', JStr ''Electronics'')] = Inr (JStr ''H'')
   \<and> normalize_classification [(''primaryType'', JStr ''Other''), (''additionalType'', JList [])]
       = Inr (JStr [])
   \<and> normalize_classification
        [(''primaryType'', JStr ''Other''), (''additionalType'', JList [JStr ''Electronics''])]
       = Inr (JList [JStr ''Electronics''])
   \<and> normalize_classification [(''primaryType'', JStr ''Lighting'')] = Inr (JStr ''Lighting'')"
  using normalize_classification_three_tiers [of "[(''primaryType'', JStr ''Electronics'')]"]
        normalize_classification_three_tiers
          [of "[(''primaryType'', JStr ''Other''), (''additionalType'', JList [])]"]
        normalize_classification_three_tiers
          [of "[(''primaryType'', JStr ''Other''), (''additionalType'', JList [JStr ''Electronics''])]"]
        normalize_classification_three_tiers [of "[(''primaryType'', JStr ''Lighting'')]"]
  by (simp add: dict_get_def unmappable_categories_def mapping_primary_to_cpc_def)

text \<open>
  C9. For every description text and every detector: an absent or empty text gives
  \<^verbatim>\<open>"en"\<close>; a detector that raises \<^verbatim>\<open>LangDetectException\<close> gives \<^verbatim>\<open>"en"\<close>; the result
  \<^verbatim>\<open>"unknown"\<close> gives \<^verbatim>\<open>"en"\<close>; any other detected code is returned. With a detector
  whose only exception is the detection exception the function is total: it always
  returns a language code, never null.
\<close>

theorem normalize_language_total:
  "(description = None \<or> description = Some [] \<longrightarrow>
      normalize_language detect_language description = Inr ''en'')
   \<and> (\<forall>d. description = Some d \<and> d \<noteq> [] \<longrightarrow>
        (detect_language d = Inl LangDetectException \<longrightarrow>
           normalize_language detect_language description = Inr ''en'')
      \<and> (detect_language d = Inr ''unknown'' \<longrightarrow>
           normalize_language detect_language description = Inr ''en'')
      \<and> (\<forall>lang. detect_language d = Inr lang \<and> lang \<noteq> ''unknown'' \<longrightarrow>
           normalize_language detect_language description = Inr lang))
   \<and> ((\<forall>d e. detect_language d = Inl e \<longrightarrow> e = LangDetectException) \<longrightarrow>
        (\<exists>lang. normalize_language detect_language description = Inr lang))"
  by (auto simp add: normalize_language_def split: option.splits sum.splits)

theorem normalize_language_total_witness:
  "normalize_language
     (\<lambda>d. if d = ''hola mundo'' then Inr ''es''
          else if d = ''12345'' then Inr ''unknown'' else Inl LangDetectException)
     (Some ''hola mundo'') = Inr ''es''
   \<and> normalize_language
     (\<lambda>d. if d = ''hola mundo'' then Inr ''es''
          else if d = ''12345'' then Inr ''unknown'' else Inl LangDetectException)
     (Some ''12345'') = Inr ''en''
   \<and> normalize_language
     (\<lambda>d. if d = ''hola mundo'' then Inr ''es''
          else if d = ''12345'' then Inr ''unknown'' else Inl LangDetectException)
     (Some ''???'') = Inr ''en''
   \<and> normalize_language
     (\<lambda>d. if d = ''hola mundo'' then Inr ''es''
          else if d = ''12345'' then Inr ''unknown'' else Inl LangDetectException)
     None = Inr ''en''"
  using normalize_language_total
          [of "Some ''hola mundo''"
              "\<lambda>d. if d = ''hola mundo'' then Inr ''es''
                   else if d = ''12345'' then Inr ''unknown'' else Inl LangDetectException"]
        normalize_language_total
          [of "Some ''12345''"
              "\<lambda>d. if d = ''hola mundo'' then Inr ''es''
                   else if d = ''12345'' then Inr ''unknown'' else Inl LangDetectException"]
        normalize_language_total
          [of "Some ''???''"
              "\<lambda>d. if d = ''hola mundo'' then Inr ''es''
                   else if d = ''12345'' then Inr ''unknown'' else Inl LangDetectException"]
        normalize_language_total
          [of None
              "\<lambda>d. if d = ''hola mundo'' then Inr ''es''
                   else if d = ''12345'' then Inr ''unknown'' else Inl LangDetectException"]
  by simp

section \<open>Properties of the Part Classifier\<close>

lemma classify_file_cases:
  "classify_file E G p f =
     (if is_source_file E G f then
        (if source p = None then p\<lparr>source := Some f\<rparr> else p\<lparr>export := export p @ [f]\<rparr>)
      else if is_export_file E G f then p\<lparr>export := export p @ [f]\<rparr>
      else if is_image_file E G f \<and> image p = None then p\<lparr>image := Some f\<rparr>
      else p)"
  by (auto simp add: classify_file_def Let_def is_source_file_def is_export_file_def
      is_image_file_def file_category_def split: option.splits)

lemma foldl_classify_source:
  "source (foldl (classify_file E G) p fl) =
     (case source p of Some s \<Rightarrow> Some s | None \<Rightarrow> find (is_source_file E G) fl)"
  by (induction fl arbitrary: p) (auto simp add: classify_file_cases split: option.splits)

lemma foldl_classify_image:
  "image (foldl (classify_file E G) p fl) =
     (case image p of Some s \<Rightarrow> Some s | None \<Rightarrow> find (is_image_file E G) fl)"
  by (induction fl arbitrary: p)
     (auto simp add: classify_file_cases is_image_file_def is_source_file_def is_export_file_def
       split: option.splits)

lemma foldl_classify_export_with_source:
  "source p \<noteq> None \<Longrightarrow>
   export (foldl (classify_file E G) p fl) = export p @ filter (is_design_file E G) fl"
  by (induction fl arbitrary: p) (auto simp add: classify_file_cases is_design_file_def)

lemma foldl_classify_export:
  "source p = None \<Longrightarrow>
   export (foldl (classify_file E G) p fl) =
     export p @ filter (is_design_file E G) (drop_first (is_source_file E G) fl)"
proof (induction fl arbitrary: p)
  case Nil
  then show ?case by simp
next
  case (Cons f fl)
  show ?case
  proof (cases "is_source_file E G f")
    case True
    with Cons.prems have step: "classify_file E G p f = p\<lparr>source := Some f\<rparr>"
      by (simp add: classify_file_cases)
    have "export (foldl (classify_file E G) (p\<lparr>source := Some f\<rparr>) fl) =
            export (p\<lparr>source := Some f\<rparr>) @ filter (is_design_file E G) fl"
      by (rule foldl_classify_export_with_source) simp
    with step True show ?thesis by simp
  next
    case False
    have step: "classify_file E G p f =
                  (if is_export_file E G f then p\<lparr>export := export p @ [f]\<rparr>
                   else if is_image_file E G f \<and> image p = None then p\<lparr>image := Some f\<rparr>
                   else p)"
      using False by (simp add: classify_file_cases)
    have src: "source (classify_file E G p f) = None"
      using Cons.prems by (simp add: step)
    have "export (foldl (classify_file E G) (classify_file E G p f) fl) =
            export (classify_file E G p f)
            @ filter (is_design_file E G) (drop_first (is_source_file E G) fl)"
      using src by (rule Cons.IH)
    moreover have "is_design_file E G f = is_export_file E G f"
      using False by (simp add: is_design_file_def)
    ultimately show ?thesis
      using False by (simp add: step)
  qed
qed

lemma foldl_classify_names:
  "part_name (foldl (classify_file E G) p fl) = part_name p
   \<and> part_license (foldl (classify_file E G) p fl) = part_license p
   \<and> part_licensor (foldl (classify_file E G) p fl) = part_licensor p"
  by (induction fl arbitrary: p) (auto simp add: classify_file_cases)

lemma drop_first_none: "find P xs = None \<Longrightarrow> drop_first P xs = xs"
  by (induction xs) (auto split: if_splits)

lemma filter_design_no_source:
  "find (is_source_file E G) fl = None \<Longrightarrow>
   filter (is_design_file E G) fl = filter (is_export_file E G) fl"
  by (induction fl) (auto simp add: is_design_file_def split: if_splits)

lemma classify_files_source:
  "source (classify_files E G fl) = find (is_source_file E G) fl"
  by (simp add: classify_files_def foldl_classify_source Part_def)

lemma classify_files_export:
  "export (classify_files E G fl) =
     filter (is_design_file E G) (drop_first (is_source_file E G) fl)"
  by (simp add: classify_files_def foldl_classify_export Part_def)

lemma classify_files_image:
  "image (classify_files E G fl) = find (is_image_file E G) fl"
  by (simp add: classify_files_def foldl_classify_image Part_def)

lemma promote_no_source:
  assumes "find (is_source_file E G) fl = None"
  shows "source (promote_export (classify_files E G fl)) =
           (case filter (is_export_file E G) fl of [] \<Rightarrow> None | e # es \<Rightarrow> Some e)
         \<and> export (promote_export (classify_files E G fl)) = tl (filter (is_export_file E G) fl)"
proof -
  have ex: "export (classify_files E G fl) = filter (is_export_file E G) fl"
    using assms by (simp add: classify_files_export drop_first_none filter_design_no_source)
  have src: "source (classify_files E G fl) = None"
    using assms by (simp add: classify_files_source)
  show ?thesis
    by (cases "filter (is_export_file E G) fl") (simp_all add: promote_export_def ex src)
qed

lemma promote_with_source:
  assumes "find (is_source_file E G) fl = Some s"
  shows "promote_export (classify_files E G fl) = classify_files E G fl"
  using assms by (simp add: promote_export_def classify_files_source)

text \<open>
  C1. For every bucket of files: a file whose extension is a CAD or PCB format of
  category source becomes the Part's source when the source is unset and is appended
  to export otherwise; a file of category export is appended to export; so after
  the pass the source is the first source file and export holds the other source and
  export files in their original order. When there is no source file the first export
  entry is removed from export and becomes the source. The Part is emitted exactly
  when its source is then set, with name, license and licensor copied from the source
  file, and the output is the emitted Parts in bucket order. For the bucket
  A.step (CAD source), A.stl (CAD export), A.png (image), the Part has source A.step,
  export [A.stl] and image A.png.
\<close>

theorem classify_bucket_source_export_promotion:
  "(\<forall>p f. is_source_file E G f \<longrightarrow>
      classify_file E G p f =
        (if source p = None then p\<lparr>source := Some f\<rparr> else p\<lparr>export := export p @ [f]\<rparr>))
   \<and> (\<forall>p f. is_export_file E G f \<longrightarrow> classify_file E G p f = p\<lparr>export := export p @ [f]\<rparr>)
   \<and> source (classify_files E G fl) = find (is_source_file E G) fl
   \<and> export (classify_files E G fl) =
       filter (is_design_file E G) (drop_first (is_source_file E G) fl)
   \<and> (find (is_source_file E G) fl = None \<longrightarrow>
        source (promote_export (classify_files E G fl)) =
          (case filter (is_export_file E G) fl of [] \<Rightarrow> None | e # es \<Rightarrow> Some e)
        \<and> export (promote_export (classify_files E G fl)) = tl (filter (is_export_file E G) fl))
   \<and> (find (is_source_file E G) fl \<noteq> None \<longrightarrow>
        promote_export (classify_files E G fl) = classify_files E G fl)
   \<and> (classify_bucket E G fl = None \<longleftrightarrow>
        source (promote_export (classify_files E G fl)) = None)
   \<and> (\<forall>q. classify_bucket E G fl = Some q \<longrightarrow>
        (\<exists>s. source q = Some s \<and> part_name q = name s \<and> part_license q = license s
              \<and> part_licensor q = licensor s)
        \<and> source q = source (promote_export (classify_files E G fl))
        \<and> export q = export (promote_export (classify_files E G fl))
        \<and> image q = image (classify_files E G fl))
   \<and> (\<forall>files buckets. normalize_parts_buckets files = Inr buckets \<longrightarrow>
        normalize_parts E G files =
          Inr (List.map_filter (classify_bucket E G) (map snd buckets)))
   \<and> (\<forall>a b c fmt. G ''cad'' ''.step'' = Some ''source'' \<and> G ''cad'' ''.stl'' = Some ''export''
        \<and> G ''cad'' ''.png'' = None \<and> G ''pcb'' ''.png'' = None \<and> G ''image'' ''.png'' = Some fmt
        \<and> E a = ''step'' \<and> E b = ''stl'' \<and> E c = ''png'' \<longrightarrow>
        classify_bucket E G [a, b, c] =
          Some \<lparr>part_name = name a, part_license = license a, part_licensor = licensor a,
                source = Some a, export = [b], image = Some c\<rparr>)"
proof -
  have c1: "\<forall>p f. is_source_file E G f \<longrightarrow>
      classify_file E G p f =
        (if source p = None then p\<lparr>source := Some f\<rparr> else p\<lparr>export := export p @ [f]\<rparr>)"
    by (simp add: classify_file_cases)
  have c2: "\<forall>p f. is_export_file E G f \<longrightarrow> classify_file E G p f = p\<lparr>export := export p @ [f]\<rparr>"
    by (auto simp add: classify_file_cases is_source_file_def is_export_file_def)
  have c5: "find (is_source_file E G) fl = None \<longrightarrow>
        source (promote_export (classify_files E G fl)) =
          (case filter (is_export_file E G) fl of [] \<Rightarrow> None | e # es \<Rightarrow> Some e)
        \<and> export (promote_export (classify_files E G fl)) = tl (filter (is_export_file E G) fl)"
    using promote_no_source by blast
  have c6: "find (is_source_file E G) fl \<noteq> None \<longrightarrow>
        promote_export (classify_files E G fl) = classify_files E G fl"
    using promote_with_source by fastforce
  have c7: "classify_bucket E G fl = None \<longleftrightarrow>
        source (promote_export (classify_files E G fl)) = None"
    by (simp add: classify_bucket_def emit_part_def split: option.splits)
  have img: "\<And>p. image (promote_export p) = image p"
    by (simp add: promote_export_def)
  have c8: "\<forall>q. classify_bucket E G fl = Some q \<longrightarrow>
        (\<exists>s. source q = Some s \<and> part_name q = name s \<and> part_license q = license s
              \<and> part_licensor q = licensor s)
        \<and> source q = source (promote_export (classify_files E G fl))
        \<and> export q = export (promote_export (classify_files E G fl))
        \<and> image q = image (classify_files E G fl)"
    by (auto simp add: classify_bucket_def emit_part_def img split: option.splits)
  have c9: "\<forall>files buckets. normalize_parts_buckets files = Inr buckets \<longrightarrow>
        normalize_parts E G files =
          Inr (List.map_filter (classify_bucket E G) (map snd buckets))"
    by (simp add: normalize_parts_def bind_def)
  have c10: "\<forall>a b c fmt. G ''cad'' ''.step'' = Some ''source'' \<and> G ''cad'' ''.stl'' = Some ''export''
        \<and> G ''cad'' ''.png'' = None \<and> G ''pcb'' ''.png'' = None \<and> G ''image'' ''.png'' = Some fmt
        \<and> E a = ''step'' \<and> E b = ''stl'' \<and> E c = ''png'' \<longrightarrow>
        classify_bucket E G [a, b, c] =
          Some \<lparr>part_name = name a, part_license = license a, part_licensor = licensor a,
                source = Some a, export = [b], image = Some c\<rparr>"
    by (simp add: classify_bucket_def classify_files_def classify_file_def Part_def
        promote_export_def emit_part_def)
  from c1 c2 classify_files_source [of E G fl] classify_files_export [of E G fl] c5 c6 c7 c8 c9 c10
  show ?thesis by blast
qed

lemma filter_excluded_eq:
  "\<forall>f\<in>set files. path f \<noteq> None \<Longrightarrow>
   filter_excluded files = Inr (filter (\<lambda>f. \<not> file_excluded f) files)"
  by (induction files) (auto simp add: file_excluded_def split: option.splits)

lemma make_buckets_eq:
  "\<forall>f\<in>set fs. has_named_path f \<Longrightarrow>
   make_buckets bs fs = Inr (foldl (\<lambda>b f. bucket_append b (file_bucket_key f) f) bs fs)"
  by (induction fs arbitrary: bs)
     (auto simp add: has_named_path_def file_bucket_key_def with_suffix_empty_def bucket_key_def
       split: option.splits)

lemma map_of_bucket_append:
  "map_of (bucket_append bs k f) k' =
     (if k' = k then Some ((case map_of bs k of None \<Rightarrow> [] | Some fl \<Rightarrow> fl) @ [f])
      else map_of bs k')"
  by (induction bs) auto

lemma keys_bucket_append:
  "fst ` set (bucket_append bs k f) = insert k (fst ` set bs)"
  by (induction bs) (force split: if_splits)+

lemma distinct_bucket_append:
  "distinct (map fst bs) \<Longrightarrow> distinct (map fst (bucket_append bs k f))"
proof (induction bs)
  case Nil
  then show ?case by simp
next
  case (Cons b bs)
  then show ?case
    using keys_bucket_append [of bs k f] by (cases b) auto
qed

lemma distinct_foldl_buckets:
  "distinct (map fst bs) \<Longrightarrow>
   distinct (map fst (foldl (\<lambda>b f. bucket_append b (key f) f) bs fs))"
  by (induction fs arbitrary: bs) (simp_all add: distinct_bucket_append)

lemma map_of_foldl_buckets:
  "map_of (foldl (\<lambda>b f. bucket_append b (key f) f) bs fs) k =
     (if \<exists>f\<in>set fs. key f = k
      then Some ((case map_of bs k of None \<Rightarrow> [] | Some fl \<Rightarrow> fl) @ filter (\<lambda>f. key f = k) fs)
      else map_of bs k)"
proof (induction fs arbitrary: bs)
  case Nil
  then show ?case by simp
next
  case (Cons f fs)
  show ?case
    by (simp add: Cons.IH map_of_bucket_append)
qed

lemma buckets_members:
  assumes "\<forall>f\<in>set files. has_named_path f"
  shows "\<exists>buckets. normalize_parts_buckets files = Inr buckets
           \<and> distinct (map fst buckets)
           \<and> (\<forall>k fl. (k, fl) \<in> set buckets \<longleftrightarrow>
                 fl \<noteq> [] \<and> fl = filter (\<lambda>f. \<not> file_excluded f \<and> file_bucket_key f = k) files)"
proof -
  let ?filtered = "filter (\<lambda>f. \<not> file_excluded f) files"
  let ?buckets = "foldl (\<lambda>b f. bucket_append b (file_bucket_key f) f) [] ?filtered"
  from assms have paths: "\<forall>f\<in>set files. path f \<noteq> None"
    by (auto simp add: has_named_path_def split: option.splits)
  from assms have named: "\<forall>f\<in>set ?filtered. has_named_path f"
    by simp
  have run: "normalize_parts_buckets files = Inr ?buckets"
    by (simp add: normalize_parts_buckets_def bind_def filter_excluded_eq [OF paths]
        make_buckets_eq [OF named])
  have dist: "distinct (map fst ?buckets)"
    by (rule distinct_foldl_buckets) simp
  have look: "\<And>k. map_of ?buckets k =
     (if \<exists>f\<in>set ?filtered. file_bucket_key f = k
      then Some (filter (\<lambda>f. file_bucket_key f = k) ?filtered) else None)"
    by (simp add: map_of_foldl_buckets)
  have flt: "\<And>k. filter (\<lambda>f. file_bucket_key f = k) ?filtered =
                 filter (\<lambda>f. \<not> file_excluded f \<and> file_bucket_key f = k) files"
    by (simp add: conj_commute)
  have ne: "\<And>k. (\<exists>f\<in>set ?filtered. file_bucket_key f = k) \<longleftrightarrow>
                 filter (\<lambda>f. \<not> file_excluded f \<and> file_bucket_key f = k) files \<noteq> []"
    by (auto simp add: filter_empty_conv)
  have mem: "\<And>k fl. (k, fl) \<in> set ?buckets \<longleftrightarrow> map_of ?buckets k = Some fl"
    using dist by simp
  have "\<forall>k fl. (k, fl) \<in> set ?buckets \<longleftrightarrow>
          fl \<noteq> [] \<and> fl = filter (\<lambda>f. \<not> file_excluded f \<and> file_bucket_key f = k) files"
    unfolding mem look flt ne by auto
  with run dist show ?thesis by blast
qed

text \<open>
  C2 (as amended). For every input list of files each of which has a path with a
  non-empty name, the first two loops return the buckets without raising: the keys
  are distinct, the bucket of a key holds, in their original order, exactly the files
  that are not excluded and whose path with the last extension stripped and
  lower-cased is that key; a file is in no bucket exactly when its stem, with spaces and
  hyphens replaced by underscores and upper-cased, is in the administrative name set;
  every other file is in the bucket of its key, so two such files with the same key
  share a bucket. The paths a.STEP, a.stl and a.step all have the key a.
\<close>

theorem buckets_exclusion_and_grouping:
  assumes "\<forall>f\<in>set files. has_named_path f"
  shows "\<exists>buckets. normalize_parts_buckets files = Inr buckets
           \<and> distinct (map fst buckets)
           \<and> (\<forall>k fl. (k, fl) \<in> set buckets \<longleftrightarrow>
                 fl \<noteq> [] \<and> fl = filter (\<lambda>f. \<not> file_excluded f \<and> file_bucket_key f = k) files)
           \<and> (\<forall>f\<in>set files. file_excluded f \<longleftrightarrow>
                 \<not> (\<exists>k fl. (k, fl) \<in> set buckets \<and> f \<in> set fl))
           \<and> (\<forall>f\<in>set files. \<not> file_excluded f \<longrightarrow>
                 (\<exists>fl. (file_bucket_key f, fl) \<in> set buckets \<and> f \<in> set fl))
           \<and> (\<forall>f\<in>set files. \<forall>g\<in>set files.
                 \<not> file_excluded f \<and> \<not> file_excluded g \<and> file_bucket_key f = file_bucket_key g
                 \<longrightarrow> (\<exists>k fl. (k, fl) \<in> set buckets \<and> f \<in> set fl \<and> g \<in> set fl))
           \<and> bucket_key (Path [] [''a.STEP'']) = ''a''
           \<and> bucket_key (Path [] [''a.stl'']) = ''a''
           \<and> bucket_key (Path [] [''a.step'']) = ''a''"
proof -
  from buckets_members [OF assms] obtain buckets where
    run: "normalize_parts_buckets files = Inr buckets" and
    dist: "distinct (map fst buckets)" and
    mem: "\<forall>k fl. (k, fl) \<in> set buckets \<longleftrightarrow>
            fl \<noteq> [] \<and> fl = filter (\<lambda>f. \<not> file_excluded f \<and> file_bucket_key f = k) files"
    by blast
  have placed: "\<forall>f\<in>set files. \<not> file_excluded f \<longrightarrow>
                  (\<exists>fl. (file_bucket_key f, fl) \<in> set buckets \<and> f \<in> set fl)"
  proof (intro ballI impI)
    fix f assume f: "f \<in> set files" and nx: "\<not> file_excluded f"
    let ?fl = "filter (\<lambda>g. \<not> file_excluded g \<and> file_bucket_key g = file_bucket_key f) files"
    from f nx have in_fl: "f \<in> set ?fl" by simp
    then have "?fl \<noteq> []" by (auto simp add: filter_empty_conv)
    with mem have "(file_bucket_key f, ?fl) \<in> set buckets" by blast
    with in_fl show "\<exists>fl. (file_bucket_key f, fl) \<in> set buckets \<and> f \<in> set fl" by blast
  qed
  have only: "\<And>k fl f. (k, fl) \<in> set buckets \<Longrightarrow> f \<in> set fl \<Longrightarrow>
                \<not> file_excluded f \<and> file_bucket_key f = k"
  proof -
    fix k fl f assume "(k, fl) \<in> set buckets" and f: "f \<in> set fl"
    with mem have "fl = filter (\<lambda>f. \<not> file_excluded f \<and> file_bucket_key f = k) files"
      by blast
    with f have "f \<in> set (filter (\<lambda>f. \<not> file_excluded f \<and> file_bucket_key f = k) files)"
      by simp
    then show "\<not> file_excluded f \<and> file_bucket_key f = k" by simp
  qed
  have excl: "\<forall>f\<in>set files. file_excluded f \<longleftrightarrow>
                \<not> (\<exists>k fl. (k, fl) \<in> set buckets \<and> f \<in> set fl)"
    using placed only by blast
  have same: "\<forall>f\<in>set files. \<forall>g\<in>set files.
                 \<not> file_excluded f \<and> \<not> file_excluded g \<and> file_bucket_key f = file_bucket_key g
                 \<longrightarrow> (\<exists>k fl. (k, fl) \<in> set buckets \<and> f \<in> set fl \<and> g \<in> set fl)"
  proof (intro ballI impI)
    fix f g assume f: "f \<in> set files" and g: "g \<in> set files"
      and h: "\<not> file_excluded f \<and> \<not> file_excluded g \<and> file_bucket_key f = file_bucket_key g"
    let ?fl = "filter (\<lambda>x. \<not> file_excluded x \<and> file_bucket_key x = file_bucket_key f) files"
    from f g h have in_fl: "f \<in> set ?fl \<and> g \<in> set ?fl" by simp
    then have "?fl \<noteq> []" by (auto simp add: filter_empty_conv)
    with mem have "(file_bucket_key f, ?fl) \<in> set buckets" by blast
    with in_fl show "\<exists>k fl. (k, fl) \<in> set buckets \<and> f \<in> set fl \<and> g \<in> set fl" by blast
  qed
  have keys: "bucket_key (Path [] [''a.STEP'']) = ''a''
              \<and> bucket_key (Path [] [''a.stl'']) = ''a''
              \<and> bucket_key (Path [] [''a.step'']) = ''a''"
    by (simp add: bucket_key_def name_split_def str_lower_def ascii_lower_def)
  from run dist mem excl placed same keys show ?thesis by blast
qed

lemmas path_eval_defs =
  example_file_def has_named_path_def normalize_parts_buckets_def bind_def exclude_name_def
  path_stem_def path_suffix_def name_split_def str_upper_def str_lower_def str_replace_def
  ascii_upper_def ascii_lower_def EXCLUDE_FILES_def with_suffix_empty_def

theorem buckets_exclusion_and_grouping_witness:
  "has_named_path (example_file [''a.STEP'']) \<and> has_named_path (example_file [''README.md''])
   \<and> has_named_path (example_file [''a.stl'']) \<and> has_named_path (example_file [''b.png''])
   \<and> has_named_path (example_file [''a.step''])
   \<and> normalize_parts_buckets
        [example_file [''a.STEP''], example_file [''README.md''], example_file [''a.stl''],
         example_file [''b.png''], example_file [''a.step'']]
       = Inr [(''a'', [example_file [''a.STEP''], example_file [''a.stl''],
                      example_file [''a.step'']]),
              (''b'', [example_file [''b.png'']])]"
  using buckets_exclusion_and_grouping
          [of "[example_file [''a.STEP''], example_file [''README.md''], example_file [''a.stl''],
                example_file [''b.png''], example_file [''a.step'']]"]
  by (simp add: path_eval_defs)

text \<open>
  The claim as written covers every list of files. A file without a path (the File
  Normalizer leaves \<^verbatim>\<open>path\<close> unset when the record has no \<^verbatim>\<open>filename\<close>) makes
  \<^verbatim>\<open>file.path.stem\<close> raise, and a path with an empty name makes \<^verbatim>\<open>with_suffix\<close> raise:
  no bucket is built, and the file a.step of the same list reaches none.
\<close>

theorem buckets_without_path_counterexample:
  "normalize_parts_buckets [example_file [''a.step''], (example_file [''b.step''])\<lparr>path := None\<rparr>]
     = Inl AttributeError
   \<and> normalize_parts_buckets [example_file [''a.step''], example_file []] = Inl ValueError"
  by (simp add: path_eval_defs)

theorem classify_bucket_source_export_promotion_witness:
  "classify_bucket example_extension example_formats
     [example_file [''A.step''], example_file [''A.stl''], example_file [''A.png'']]
   = Some \<lparr>part_name = Some ''A'', part_license = None, part_licensor = JNull,
           source = Some (example_file [''A.step'']), export = [example_file [''A.stl'']],
           image = Some (example_file [''A.png''])\<rparr>
   \<and> classify_bucket example_extension example_formats [example_file [''B.stl'']]
   = Some \<lparr>part_name = Some ''B'', part_license = None, part_licensor = JNull,
           source = Some (example_file [''B.stl'']), export = [], image = None\<rparr>
   \<and> classify_bucket example_extension example_formats [example_file [''C.png'']] = None"
proof -
  have reg: "example_formats ''cad'' ''.step'' = Some ''source''
             \<and> example_formats ''cad'' ''.stl'' = Some ''export''
             \<and> example_formats ''cad'' ''.png'' = None
             \<and> example_formats ''pcb'' ''.png'' = None
             \<and> example_formats ''image'' ''.png'' = Some ''image''"
    by (simp add: example_formats_def)
  have ext: "example_extension (example_file [''A.step'']) = ''step''
             \<and> example_extension (example_file [''A.stl'']) = ''stl''
             \<and> example_extension (example_file [''A.png'']) = ''png''
             \<and> example_extension (example_file [''B.stl'']) = ''stl''
             \<and> example_extension (example_file [''C.png'']) = ''png''"
    by (simp add: example_extension_def path_eval_defs)
  have flds: "name (example_file [''A.step'']) = Some ''A''
              \<and> license (example_file [''A.step'']) = None
              \<and> licensor (example_file [''A.step'']) = JNull"
    by (simp add: path_eval_defs)
  note example =
    classify_bucket_source_export_promotion [of example_extension example_formats "[]",
      THEN conjunct2, THEN conjunct2, THEN conjunct2, THEN conjunct2, THEN conjunct2,
      THEN conjunct2, THEN conjunct2, THEN conjunct2, THEN conjunct2, rule_format,
      of "''image''" "example_file [''A.step'']" "example_file [''A.stl'']"
         "example_file [''A.png'']"]
  have a: "classify_bucket example_extension example_formats
             [example_file [''A.step''], example_file [''A.stl''], example_file [''A.png'']]
           = Some \<lparr>part_name = Some ''A'', part_license = None, part_licensor = JNull,
                   source = Some (example_file [''A.step'']),
                   export = [example_file [''A.stl'']],
                   image = Some (example_file [''A.png''])\<rparr>"
    using example reg ext flds by simp
  have b: "classify_bucket example_extension example_formats [example_file [''B.stl'']]
           = Some \<lparr>part_name = Some ''B'', part_license = None, part_licensor = JNull,
                   source = Some (example_file [''B.stl'']), export = [], image = None\<rparr>"
    using reg ext
    by (simp add: classify_bucket_def classify_files_def classify_file_def Part_def
        promote_export_def emit_part_def) (simp add: path_eval_defs)
  have c: "classify_bucket example_extension example_formats [example_file [''C.png'']] = None"
    using reg ext
    by (simp add: classify_bucket_def classify_files_def classify_file_def Part_def
        promote_export_def emit_part_def)
  from a b c show ?thesis by simp
qed

section \<open>Properties of the deserializers\<close>

text \<open>
  C10 (what the code does). The JSON deserializer turns every failure of its parser,
  and every parse result that is not a mapping, into \<^verbatim>\<open>DeserializerError\<close>, and hands a
  mapping to the normalizer. The TOML deserializer does the same for a parse result
  that is not a mapping and for a mapping, but a failure of its parser leaves the
  function as the parser raised it: it is not turned into \<^verbatim>\<open>DeserializerError\<close>.
\<close>

theorem deserializers_on_malformed_input:
  "(json_loads serialized = Inl err \<longrightarrow>
      JSON_deserialize json_loads normalizer serialized enrich = Inl DeserializerError)
   \<and> (\<forall>v. json_loads serialized = Inr v \<and> (\<forall>d. v \<noteq> JObj d) \<longrightarrow>
      JSON_deserialize json_loads normalizer serialized enrich = Inl DeserializerError)
   \<and> (\<forall>d. json_loads serialized = Inr (JObj d) \<longrightarrow>
      JSON_deserialize json_loads normalizer serialized enrich = normalizer (apply_enrich d enrich))
   \<and> (toml_loads serialized = Inl err \<longrightarrow>
      TOML_deserialize toml_loads normalizer serialized enrich = Inl err)
   \<and> (\<forall>v. toml_loads serialized = Inr v \<and> (\<forall>d. v \<noteq> JObj d) \<longrightarrow>
      TOML_deserialize toml_loads normalizer serialized enrich = Inl DeserializerError)
   \<and> (\<forall>d. toml_loads serialized = Inr (JObj d) \<longrightarrow>
      TOML_deserialize toml_loads normalizer serialized enrich = normalizer (apply_enrich d enrich))"
  by (auto simp add: JSON_deserialize_def TOML_deserialize_def split: json.splits)

text \<open>
  The instance: parsers that accept one document and reject every other text, and a
  normalizer that returns the record. The text \<^verbatim>\<open>a = \<close> is malformed in both encodings.
\<close>

theorem deserializers_on_malformed_input_witness:
  "JSON_deserialize
     (\<lambda>s. if s = ''{}'' then Inr (JObj []) else Inl JSONDecodeError)
     Inr ''a = '' None = Inl DeserializerError
   \<and> TOML_deserialize
     (\<lambda>s. if s = ''a = 1'' then Inr (JObj [(''a'', JInt 1)]) else Inl TomlDecodeError)
     Inr ''a = '' None = Inl TomlDecodeError
   \<and> TOML_deserialize
     (\<lambda>s. if s = ''a = 1'' then Inr (JObj [(''a'', JInt 1)]) else Inl TomlDecodeError)
     Inr ''a = 1'' None = Inr [(''a'', JInt 1)]"
  using deserializers_on_malformed_input
          [of "\<lambda>s. if s = ''{}'' then Inr (JObj []) else Inl JSONDecodeError"
              "''a = ''" JSONDecodeError Inr None
              "\<lambda>s. if s = ''a = 1'' then Inr (JObj [(''a'', JInt 1)]) else Inl TomlDecodeError"]
        deserializers_on_malformed_input
          [of "\<lambda>s. Inl JSONDecodeError" "''a = ''" TomlDecodeError Inr None
              "\<lambda>s. if s = ''a = 1'' then Inr (JObj [(''a'', JInt 1)]) else Inl TomlDecodeError"]
        deserializers_on_malformed_input
          [of "\<lambda>s. Inl JSONDecodeError" "''a = 1''" TomlDecodeError Inr None
              "\<lambda>s. if s = ''a = 1'' then Inr (JObj [(''a'', JInt 1)]) else Inl TomlDecodeError"]
  by (simp add: apply_enrich_def)

end
